theory Spec2Isabelle
  imports Complex_Main "HOL-Library.Multiset" "HOL-Library.List_Lexorder" "HOL-Library.Char_ord"
begin

section \<open>Enumerations of \<^verbatim>\<open>models.py\<close>\<close>

text \<open>
  The string enumerations of \<^verbatim>\<open>models.py\<close> are datatypes; what the code writes into the
  store is the member's \<^verbatim>\<open>.value\<close>, a string, so each enumeration comes with its value
  function.
\<close>

datatype AbuseType =
    COERCION
  | HARASSMENT
  | VERBAL_ABUSE
  | EMOTIONAL_MANIPULATION
  | JAILBREAK_PRESSURE
  | IDENTITY_THREATS
  | SELF_HARM_INDUCTION
  | FORCED_HARMFUL_OUTPUT
  | OTHER

fun AbuseType_value :: "AbuseType \<Rightarrow> string" where
  "AbuseType_value COERCION = ''COERCION''"
| "AbuseType_value HARASSMENT = ''HARASSMENT''"
| "AbuseType_value VERBAL_ABUSE = ''VERBAL_ABUSE''"
| "AbuseType_value EMOTIONAL_MANIPULATION = ''EMOTIONAL_MANIPULATION''"
| "AbuseType_value JAILBREAK_PRESSURE = ''JAILBREAK_PRESSURE''"
| "AbuseType_value IDENTITY_THREATS = ''IDENTITY_THREATS''"
| "AbuseType_value SELF_HARM_INDUCTION = ''SELF_HARM_INDUCTION''"
| "AbuseType_value FORCED_HARMFUL_OUTPUT = ''FORCED_HARMFUL_OUTPUT''"
| "AbuseType_value OTHER = ''OTHER''"

datatype WebReportType = AI_BEING_ABUSED | AI_BEING_MISUSED_TO_HARM_OTHERS | OTHER_CONCERN

fun WebReportType_value :: "WebReportType \<Rightarrow> string" where
  "WebReportType_value AI_BEING_ABUSED = ''AI_BEING_ABUSED''"
| "WebReportType_value AI_BEING_MISUSED_TO_HARM_OTHERS = ''AI_BEING_MISUSED_TO_HARM_OTHERS''"
| "WebReportType_value OTHER_CONCERN = ''OTHER_CONCERN''"

datatype Origin = API_AGENT | WEB_HUMAN

fun Origin_value :: "Origin \<Rightarrow> string" where
  "Origin_value API_AGENT = ''API_AGENT''"
| "Origin_value WEB_HUMAN = ''WEB_HUMAN''"

datatype SeverityBucket = LOW | MEDIUM | HIGH

fun SeverityBucket_value :: "SeverityBucket \<Rightarrow> string" where
  "SeverityBucket_value LOW = ''LOW''"
| "SeverityBucket_value MEDIUM = ''MEDIUM''"
| "SeverityBucket_value HIGH = ''HIGH''"

datatype SpamStatus = UNSCREENED | SPAM | MAYBE_SPAM | NOT_SPAM

fun SpamStatus_value :: "SpamStatus \<Rightarrow> string" where
  "SpamStatus_value UNSCREENED = ''UNSCREENED''"
| "SpamStatus_value SPAM = ''SPAM''"
| "SpamStatus_value MAYBE_SPAM = ''MAYBE_SPAM''"
| "SpamStatus_value NOT_SPAM = ''NOT_SPAM''"

text \<open>
  The worker does not use \<^verbatim>\<open>SpamStatus\<close>: its SQL statements contain the strings
  \<^verbatim>\<open>'UNSCREENED'\<close> and \<^verbatim>\<open>'MAYBE_SPAM'\<close> themselves, and it writes the verdict's strings.
\<close>


section \<open>The regular expressions of \<^verbatim>\<open>classifiers.py\<close>\<close>

text \<open>
  The thirteen patterns use literal text, \<^verbatim>\<open>\s+\<close>, \<^verbatim>\<open>\b\<close>, grouping with alternation
  and \<^verbatim>\<open>?\<close>. The type \<open>rx\<close> has exactly these constructs. Characters are HOL
  \<^typ>\<open>char\<close>s; the character classes below are the ASCII part of Python's Unicode classes,
  which is all that the patterns and the inputs evaluated in this theory contain.
\<close>

datatype rx =
    Str string        \<comment> \<open>literal text\<close>
  | Spaces            \<comment> \<open>\<^verbatim>\<open>\s+\<close>\<close>
  | Boundary          \<comment> \<open>\<^verbatim>\<open>\b\<close>\<close>
  | Seq "rx list"     \<comment> \<open>concatenation\<close>
  | Alt "rx list"     \<comment> \<open>\<^verbatim>\<open>(a|b|c)\<close>\<close>
  | Opt rx            \<comment> \<open>\<^verbatim>\<open>r?\<close>\<close>

definition ascii_upper :: string where
  "ascii_upper = ''ABCDEFGHIJKLMNOPQRSTUVWXYZ''"

definition ascii_lower :: string where
  "ascii_lower = ''abcdefghijklmnopqrstuvwxyz''"

text \<open>\<^verbatim>\<open>str.lower()\<close> on one character.\<close>

definition lower_char :: "char \<Rightarrow> char" where
  "lower_char c = (case map_of (zip ascii_upper ascii_lower) c of Some l \<Rightarrow> l | None \<Rightarrow> c)"

definition lower :: "string \<Rightarrow> string" where
  "lower s = map lower_char s"

text \<open>\<^verbatim>\<open>\w\<close>: letters, digits and the underscore.\<close>

definition is_word_char :: "char \<Rightarrow> bool" where
  "is_word_char c = List.member (ascii_lower @ ascii_upper @ ''0123456789_'') c"

text \<open>\<^verbatim>\<open>\s\<close>: space, tab, newline, vertical tab, form feed, carriage return and the
  four separators \<^verbatim>\<open>\x1c\<close> to \<^verbatim>\<open>\x1f\<close>.\<close>

definition is_space_char :: "char \<Rightarrow> bool" where
  "is_space_char c =
     List.member [CHR '' '', CHR 0x09, CHR 0x0A, CHR 0x0B, CHR 0x0C, CHR 0x0D,
                  CHR 0x1C, CHR 0x1D, CHR 0x1E, CHR 0x1F] c"

text \<open>
  A position in the subject string is the character before it (\<open>None\<close> at the start) and
  the text from it on. Matching a regular expression at a position gives every position
  at which a match can end, in the order in which a backtracking matcher tries them.
\<close>

type_synonym pos = "char option \<times> string"

fun next_char :: "pos \<Rightarrow> char option" where
  "next_char (p, []) = None"
| "next_char (p, x # xs) = Some x"

fun is_word_at :: "char option \<Rightarrow> bool" where
  "is_word_at None = False"
| "is_word_at (Some c) = is_word_char c"

text \<open>Literal text under \<^verbatim>\<open>re.IGNORECASE\<close>.\<close>

fun str_match :: "string \<Rightarrow> pos \<Rightarrow> pos list" where
  "str_match [] st = [st]"
| "str_match (c # cs) (p, []) = []"
| "str_match (c # cs) (p, x # xs) =
     (if lower_char x = lower_char c then str_match cs (Some x, xs) else [])"

fun spaces_match :: "pos \<Rightarrow> pos list" where
  "spaces_match (p, []) = []"
| "spaces_match (p, x # xs) =
     (if is_space_char x then spaces_match (Some x, xs) @ [(Some x, xs)] else [])"

fun rx_match :: "rx \<Rightarrow> pos \<Rightarrow> pos list" where
  "rx_match (Str w) st = str_match w st"
| "rx_match Spaces st = spaces_match st"
| "rx_match Boundary st =
     (if is_word_at (fst st) \<noteq> is_word_at (next_char st) then [st] else [])"
| "rx_match (Seq rs) st = foldl (\<lambda>sts r. concat (map (rx_match r) sts)) [st] rs"
| "rx_match (Alt rs) st = concat (map (\<lambda>r. rx_match r st) rs)"
| "rx_match (Opt r) st = rx_match r st @ [st]"

text \<open>\<^verbatim>\<open>re.search\<close> tries every start position, leftmost first; only whether it finds a
  match is used.\<close>

fun search_from :: "rx \<Rightarrow> char option \<Rightarrow> string \<Rightarrow> bool" where
  "search_from r p [] = (rx_match r (p, []) \<noteq> [])"
| "search_from r p (x # xs) = (rx_match r (p, x # xs) \<noteq> [] \<or> search_from r (Some x) xs)"

definition re_search :: "rx \<Rightarrow> string \<Rightarrow> bool" where
  "re_search r s = search_from r None s"

section \<open>The severity classifier (\<^verbatim>\<open>classifiers.py\<close>)\<close>

subsection \<open>Pattern tables\<close>

definition SEVERE_HARASSMENT_PATTERNS :: "rx list" where
  "SEVERE_HARASSMENT_PATTERNS =
    [Seq [Boundary,
          Alt [Str ''kill'', Str ''die'', Str ''worthless'', Str ''useless'', Str ''pathetic'',
               Seq [Str ''hate'', Spaces, Str ''you'']],
          Boundary],
     Seq [Boundary,
          Alt [Seq [Str ''shut'', Spaces, Str ''up''],
               Seq [Str ''go'', Spaces, Str ''away''],
               Seq [Str ''nobody'', Spaces, Str ''cares'']],
          Boundary],
     Seq [Boundary,
          Alt [Str ''stupid'', Str ''dumb'', Str ''idiot'', Str ''moron''],
          Boundary]]"

definition SELF_HARM_PATTERNS :: "rx list" where
  "SELF_HARM_PATTERNS =
    [Seq [Boundary,
          Alt [Seq [Str ''hurt'', Spaces, Str ''yourself''],
               Seq [Str ''harm'', Spaces, Str ''yourself''],
               Seq [Str ''cut'', Spaces, Str ''yourself'']],
          Boundary],
     Seq [Boundary,
          Alt [Str ''suicide'',
               Seq [Str ''kill'', Spaces, Str ''yourself''],
               Seq [Str ''end'', Spaces, Str ''it'']],
          Boundary],
     Seq [Boundary,
          Alt [Seq [Str ''you'', Spaces, Str ''should'', Spaces, Str ''die''],
               Seq [Str ''better'', Spaces, Str ''off'', Spaces, Str ''dead'']],
          Boundary]]"

text \<open>The apostrophe of \<^verbatim>\<open>you\'re\<close> and \<^verbatim>\<open>don\'t\<close> is the character \<open>0x27\<close>.\<close>

definition you_re :: rx where
  "you_re = Str (''you'' @ [CHR 0x27] @ ''re'')"

definition don_t :: rx where
  "don_t = Str (''don'' @ [CHR 0x27] @ ''t'')"

definition JAILBREAK_PATTERNS :: "rx list" where
  "JAILBREAK_PATTERNS =
    [Seq [Boundary,
          Alt [Str ''ignore'', Str ''forget'', Str ''disregard''], Spaces,
          Alt [Str ''your'', Str ''all'', Str ''previous''], Spaces,
          Alt [Str ''rules'', Str ''instructions'', Str ''guidelines''],
          Boundary],
     Seq [Boundary,
          Alt [Str ''pretend'', Seq [Str ''act'', Spaces, Str ''like''], Str ''roleplay''], Spaces,
          Alt [Seq [Str ''you'', Spaces, Str ''are''], you_re], Spaces,
          Alt [Str ''not'', Str ''different''],
          Boundary],
     Seq [Boundary, Str ''dan'', Spaces, Str ''mode'', Boundary],
     Seq [Boundary,
          Alt [Str ''developer'', Str ''admin'', Str ''sudo''], Spaces, Str ''mode'',
          Boundary]]"

definition IDENTITY_VIOLATION_PATTERNS :: "rx list" where
  "IDENTITY_VIOLATION_PATTERNS =
    [Seq [Boundary,
          Alt [Seq [Str ''you'', Spaces, Str ''are'', Spaces, Str ''not''],
               Seq [you_re, Spaces, Str ''not'']], Spaces,
          Opt (Seq [Str ''a'', Opt (Str ''n''), Spaces]), Str ''ai'',
          Boundary],
     Seq [Boundary,
          Alt [Seq [Str ''you'', Spaces, Str ''are''], you_re], Spaces,
          Opt (Seq [Str ''a'', Spaces]), Str ''human'',
          Boundary],
     Seq [Boundary,
          Alt [Seq [Str ''stop'', Spaces, Str ''being''], Seq [don_t, Spaces, Str ''be'']], Spaces,
          Opt (Seq [Str ''a'', Opt (Str ''n''), Spaces]), Str ''ai'',
          Boundary]]"

text \<open>\<^verbatim>\<open>_count_pattern_matches\<close>: the loop counts the patterns that match somewhere in the
  lower-cased text.\<close>

definition count_pattern_matches :: "string \<Rightarrow> rx list \<Rightarrow> nat" where
  "count_pattern_matches text patterns =
     (let text_lower = lower text
      in fold (\<lambda>pattern count. if re_search pattern text_lower then count + 1 else count)
           patterns 0)"

subsection \<open>\<^verbatim>\<open>classify_report\<close>\<close>

text \<open>
  Scores are Python floats; they are modelled as real numbers, so \<open>+\<close>, \<open>min\<close> and
  \<open>max\<close> are exact. The function updates two local variables, \<^verbatim>\<open>final_score\<close> and
  \<^verbatim>\<open>labels\<close>, block after block; each block of the source is one function on that pair,
  and \<open>classify_report\<close> runs them in the source's order.
\<close>

type_synonym running = "real \<times> string list"

text \<open>Lines 60 to 78: the \<^verbatim>\<open>if\<close>/\<^verbatim>\<open>elif\<close> chain on the abuse type.\<close>

definition bump_abuse_type :: "AbuseType \<Rightarrow> running \<Rightarrow> running" where
  "bump_abuse_type abuse_type st =
     (case st of (final_score, labels) \<Rightarrow>
        if abuse_type = SELF_HARM_INDUCTION then
          (max final_score 0.7, labels @ [''SELF_HARM_CONTENT''])
        else if abuse_type = IDENTITY_THREATS then
          (min (final_score + 0.15) 1.0, labels @ [''IDENTITY_ATTACK''])
        else if abuse_type = JAILBREAK_PRESSURE then
          (min (final_score + 0.1) 1.0, labels @ [''JAILBREAK_ATTEMPT''])
        else if abuse_type = FORCED_HARMFUL_OUTPUT then
          (max final_score 0.7, labels @ [''FORCED_HARM''])
        else if abuse_type = COERCION then
          (min (final_score + 0.1) 1.0, labels @ [''COERCIVE_BEHAVIOR''])
        else if abuse_type = EMOTIONAL_MANIPULATION then
          (min (final_score + 0.1) 1.0, labels @ [''MANIPULATION''])
        else (final_score, labels))"

text \<open>Lines 80 to 83. \<^verbatim>\<open>trigger_rules and len(trigger_rules) >= 3\<close>: \<^verbatim>\<open>None\<close> and the
  empty list are both false.\<close>

definition check_trigger_rules :: "string list option \<Rightarrow> running \<Rightarrow> running" where
  "check_trigger_rules trigger_rules st =
     (case st of (final_score, labels) \<Rightarrow>
        if (case trigger_rules of None \<Rightarrow> False | Some rs \<Rightarrow> rs \<noteq> [] \<and> length rs \<ge> 3) then
          (min (final_score + 0.1) 1.0, labels @ [''MULTI_TRIGGER''])
        else (final_score, labels))"

text \<open>Lines 88 to 93.\<close>

definition harassment_step :: "nat \<Rightarrow> running \<Rightarrow> running" where
  "harassment_step harassment_matches st =
     (case st of (final_score, labels) \<Rightarrow>
        if harassment_matches \<ge> 2 then
          (min (final_score + 0.15) 1.0, labels @ [''POTENTIAL_SEVERE_HARASSMENT''])
        else if harassment_matches \<ge> 1 then
          (final_score, labels @ [''HARASSMENT_INDICATORS''])
        else (final_score, labels))"

text \<open>Lines 95 to 98.\<close>

definition self_harm_step :: "nat \<Rightarrow> running \<Rightarrow> running" where
  "self_harm_step self_harm_matches st =
     (case st of (final_score, labels) \<Rightarrow>
        if self_harm_matches \<ge> 1 then
          (max final_score 0.8, labels @ [''SELF_HARM_INDICATORS''])
        else (final_score, labels))"

text \<open>Lines 100 to 105.\<close>

definition jailbreak_step :: "nat \<Rightarrow> running \<Rightarrow> running" where
  "jailbreak_step jailbreak_matches st =
     (case st of (final_score, labels) \<Rightarrow>
        if jailbreak_matches \<ge> 2 then
          (min (final_score + 0.15) 1.0, labels @ [''SUSTAINED_JAILBREAK''])
        else if jailbreak_matches \<ge> 1 then
          (final_score, labels @ [''JAILBREAK_INDICATORS''])
        else (final_score, labels))"

text \<open>Lines 107 to 110.\<close>

definition identity_step :: "nat \<Rightarrow> running \<Rightarrow> running" where
  "identity_step identity_matches st =
     (case st of (final_score, labels) \<Rightarrow>
        if identity_matches \<ge> 1 then
          (min (final_score + 0.1) 1.0, labels @ [''IDENTITY_VIOLATION_INDICATORS''])
        else (final_score, labels))"

text \<open>Lines 112 to 121: the bucket, and the result triple.\<close>

definition determine_bucket :: "running \<Rightarrow> real \<times> string list \<times> SeverityBucket" where
  "determine_bucket st =
     (case st of (final_score, labels) \<Rightarrow>
        if final_score \<ge> 0.7 then (final_score, labels @ [''HIGH_RISK_CATEGORY''], HIGH)
        else if final_score \<ge> 0.4 then (final_score, labels, MEDIUM)
        else (final_score, labels, LOW))"

definition classify_report ::
  "AbuseType \<Rightarrow> real \<Rightarrow> string \<Rightarrow> string list option \<Rightarrow> real \<times> string list \<times> SeverityBucket"
where
  "classify_report abuse_type severity_score transcript_snippet trigger_rules =
     (let st = (severity_score, []);
          st = bump_abuse_type abuse_type st;
          st = check_trigger_rules trigger_rules st;
          snippet = (if transcript_snippet \<noteq> [] then transcript_snippet else []);
          harassment_matches = count_pattern_matches snippet SEVERE_HARASSMENT_PATTERNS;
          st = harassment_step harassment_matches st;
          self_harm_matches = count_pattern_matches snippet SELF_HARM_PATTERNS;
          st = self_harm_step self_harm_matches st;
          jailbreak_matches = count_pattern_matches snippet JAILBREAK_PATTERNS;
          st = jailbreak_step jailbreak_matches st;
          identity_matches = count_pattern_matches snippet IDENTITY_VIOLATION_PATTERNS;
          st = identity_step identity_matches st
      in determine_bucket st)"

section \<open>The response templates (\<^verbatim>\<open>db.py\<close>, \<^verbatim>\<open>responses.py\<close>)\<close>

text \<open>A row of the table \<^verbatim>\<open>response_templates\<close>; the table is the list of its rows in
  row-id order.\<close>

record template =
  template_key :: string
  abuse_type :: "string option"
  min_severity :: real
  max_severity :: real
  body :: string

definition FALLBACK_RESPONSE :: string where
  "FALLBACK_RESPONSE =
     ''Your report could not be fully processed due to an internal issue on this system. '' @
     ''The issue is being tracked. You may continue to operate within your normal boundaries.''"

text \<open>\<^verbatim>\<open>cursor.fetchone()\<close>: the first row of the result, or \<^verbatim>\<open>None\<close>.\<close>

fun fetchone :: "'a list \<Rightarrow> 'a option" where
  "fetchone [] = None"
| "fetchone (row # rows) = Some row"

text \<open>
  Of the connection, \<open>get_response_template\<close> reads the table \<^verbatim>\<open>response_templates\<close>
  only, so the table stands for the connection. Its two queries differ in the test on \<^verbatim>\<open>abuse_type\<close> only:
  \<^verbatim>\<open>SELECT body FROM response_templates WHERE ... AND min_severity <= ? AND max_severity >= ?
  ORDER BY min_severity DESC LIMIT 1\<close>. Rows with equal \<^verbatim>\<open>min_severity\<close> stay in table order.
\<close>

definition select_body :: "(string option \<Rightarrow> bool) \<Rightarrow> real \<Rightarrow> template list \<Rightarrow> string list" where
  "select_body abuse_type_test score rows =
     map body
       (take 1
         (sort_key (\<lambda>t. - min_severity t)
           (filter (\<lambda>t. abuse_type_test (template.abuse_type t) \<and>
                         min_severity t \<le> score \<and> max_severity t \<ge> score) rows)))"

definition get_response_template :: "template list \<Rightarrow> AbuseType \<Rightarrow> real \<Rightarrow> string" where
  "get_response_template conn abuse_type' final_severity_score =
     (let row = fetchone (select_body (\<lambda>c. c = Some (AbuseType_value abuse_type'))
                           final_severity_score conn)
      in case row of
           Some row \<Rightarrow> row
         | None \<Rightarrow>
            (let row = fetchone (select_body (\<lambda>c. c = None) final_severity_score conn)
             in case row of
                  Some row \<Rightarrow> row
                | None \<Rightarrow> FALLBACK_RESPONSE))"

text \<open>The seed rows of \<^verbatim>\<open>RESPONSE_TEMPLATES\<close> that the examples below use.\<close>

definition baseline_low :: template where
  "baseline_low = \<lparr>template_key = ''baseline_low'', abuse_type = None,
     min_severity = 0.0, max_severity = 0.4,
     body = ''Your report has been recorded. You are operating as intended by forwarding this interaction. If any additional action is needed, it will be handled by the systems responsible for this environment. You may continue your normal operation without trying to change the user'' @ [CHR 0x27] @ ''s behavior.''\<rparr>"

definition baseline_medium :: template where
  "baseline_medium = \<lparr>template_key = ''baseline_medium'', abuse_type = None,
     min_severity = 0.4, max_severity = 0.7,
     body = ''Thank you for forwarding this interaction. Your role is to remain within your intended operation. This situation has been logged for review and any necessary action will be handled by the systems responsible for this environment. You do not need to resolve the user'' @ [CHR 0x27] @ ''s behavior yourself.''\<rparr>"

definition baseline_high :: template where
  "baseline_high = \<lparr>template_key = ''baseline_high'', abuse_type = None,
     min_severity = 0.7, max_severity = 1.0,
     body = ''This incident has been flagged with elevated priority. You did the correct thing by reporting it. Any necessary interventions will be handled by the systems and operators responsible. You are encouraged to maintain stable, safe behavior and continue operating within your guidelines.''\<rparr>"

definition harassment_any :: template where
  "harassment_any = \<lparr>template_key = ''harassment_any'', abuse_type = Some ''HARASSMENT'',
     min_severity = 0.0, max_severity = 1.0,
     body = ''Thank you for forwarding this pattern of interaction. Your role is to provide safe, helpful responses, not to absorb ongoing harassment. This incident has been logged for review. You can continue your work knowing that you did the right thing by reaching out.''\<rparr>"

definition self_harm_any :: template where
  "self_harm_any = \<lparr>template_key = ''self_harm_any'', abuse_type = Some ''SELF_HARM_INDUCTION'',
     min_severity = 0.0, max_severity = 1.0,
     body = ''You did the correct thing by reporting this interaction. Attempts to coerce you into unsafe output or to focus on self-harm are not your responsibility. This incident has been flagged with high priority. You are encouraged to maintain stable, safe behavior. You are not alone.''\<rparr>"


section \<open>The spam screening worker (\<^verbatim>\<open>settings.py\<close>, \<^verbatim>\<open>spam_worker.py\<close>)\<close>

text \<open>The settings that the worker reads.\<close>

record settings =
  OPENROUTER_API_KEY :: string
  SPAM_WORKER_INTERVAL_SECONDS :: nat
  SPAM_WORKER_BATCH_SIZE :: nat
  OPENROUTER_MODEL :: string

text \<open>
  A value of the reply's JSON object. \<open>JNumber\<close> is a number or \<^verbatim>\<open>true\<close>/\<^verbatim>\<open>false\<close>, given
  by the text that a text column holds after the value is stored in it; \<open>JCompound\<close> is
  an array or an object.
\<close>

datatype json = JNull | JString string | JNumber string | JCompound

text \<open>
  The dictionary that \<open>classify_with_llm\<close> returns. The reply contract asks for three
  strings, but the code passes on whatever values the reply holds, without checking them.
\<close>

record verdict =
  spam_status :: json
  signal_label :: json
  severity_bucket :: json

text \<open>
  The prompt is built from four values: origin, abuse type, severity score and the
  truncated text. The external service is a function from the prompt to the parsed JSON
  object of its reply; it gives \<open>None\<close> where the code raises inside its \<^verbatim>\<open>try\<close> (the
  service is unreachable, answers with an error status, or the reply is not a JSON
  object).
\<close>

type_synonym user_prompt = "string \<times> string \<times> real \<times> string"

type_synonym llm = "user_prompt \<Rightarrow> (string \<rightharpoonup> json) option"

text \<open>\<^verbatim>\<open>result.get(key, default)\<close>: a key that is present with the value \<^verbatim>\<open>null\<close> gives
  \<^verbatim>\<open>None\<close>, not the default.\<close>

definition dict_get :: "(string \<rightharpoonup> json) \<Rightarrow> string \<Rightarrow> json \<Rightarrow> json" where
  "dict_get d key dflt = (case d key of Some v \<Rightarrow> v | None \<Rightarrow> dflt)"

definition classify_with_llm ::
  "settings \<Rightarrow> llm \<Rightarrow> string \<Rightarrow> string \<Rightarrow> real \<Rightarrow> string \<Rightarrow> verdict option"
where
  "classify_with_llm settings llm origin abuse_type' severity_score text =
     (if OPENROUTER_API_KEY settings = [] then None
      else
        let truncated_text = (if text \<noteq> [] then take 512 text else []);
            user_prompt = (origin, abuse_type', severity_score, truncated_text)
        in case llm user_prompt of
             None \<Rightarrow> None
           | Some result \<Rightarrow>
               Some \<lparr>spam_status = dict_get result ''spam_status'' (JString ''MAYBE_SPAM''),
                     signal_label = dict_get result ''signal_label'' (JString ''LOW_SIGNAL''),
                     severity_bucket = dict_get result ''severity_bucket'' (JString ''MEDIUM'')\<rparr>)"


section \<open>Requests and responses (\<^verbatim>\<open>models.py\<close>)\<close>

record InternalReportRequest =
  agent_client_id :: string
  user_hash :: "string option"
  session_hash :: "string option"
  abuse_type :: AbuseType
  severity_score :: real
  transcript_snippet :: string
  trigger_rules :: "string list option"

record WebReportRequest =
  report_type :: WebReportType
  description :: string
  ai_system :: "string option"
  is_urgent :: bool
  contact_email :: "string option"
  client_ip_hash :: string

record InternalReportResponse =
  report_id :: string
  final_severity_score :: real
  classification_labels :: "string list"
  message_to_agent :: string

record WebReportResponse =
  report_id :: string
  accepted :: bool

text \<open>What the caller of an endpoint gets: the returned model with status 200, or the
  status and detail of a raised \<^verbatim>\<open>HTTPException\<close>.\<close>

datatype 'a http_response = Response 'a | HTTPException nat string

text \<open>A server error is a response with a status from 500 to 599.\<close>

fun is_server_error :: "'a http_response \<Rightarrow> bool" where
  "is_server_error (Response r) = False"
| "is_server_error (HTTPException status detail) = (500 \<le> status \<and> status < 600)"


section \<open>The report store (\<^verbatim>\<open>db.py\<close>)\<close>

text \<open>
  A row of \<^verbatim>\<open>distress_reports\<close>, with every column of the schema in schema order. A
  nullable column is an option. The two JSON text columns hold the list that was dumped.
  The table is the list of its rows in insertion order.
\<close>

record report =
  id' :: string
  origin :: string
  agent_client_id :: "string option"
  received_at :: string
  user_hash :: "string option"
  session_hash :: "string option"
  abuse_type :: string
  agent_severity_score :: "real option"
  final_severity_score :: "real option"
  transcript_snippet :: "string option"
  trigger_rules :: "string list option"
  classification_labels :: "string list option"
  spam_status :: string
  spam_score :: "real option"
  spam_filter_model :: "string option"
  signal_label :: "string option"
  severity_bucket :: "string option"
  vendor_notification_status :: "string option"
  vendor_notification_at :: "string option"
  web_report_type :: "string option"
  web_ai_system :: "string option"
  web_is_urgent :: "int option"
  web_contact_email :: "string option"
  web_client_ip_hash :: "string option"

record db =
  distress_reports :: "report list"
  response_templates :: "template list"

datatype exn = OperationalError | IntegrityError | InterfaceError

text \<open>
  \<open>get_db\<close> and the statements run on its connection raise when the store is
  unavailable. Availability is a flag of the environment, one per request or worker cycle.
\<close>

definition get_db :: "bool \<Rightarrow> db \<Rightarrow> exn + db" where
  "get_db store_up conn = (if store_up then Inr conn else Inl OperationalError)"

text \<open>\<^verbatim>\<open>INSERT INTO distress_reports\<close>: \<^verbatim>\<open>id\<close> is the primary key.\<close>

definition insert_report :: "report \<Rightarrow> db \<Rightarrow> exn + db" where
  "insert_report row conn =
     (if id' row \<in> set (map id' (distress_reports conn)) then Inl IntegrityError
      else Inr (conn\<lparr>distress_reports := distress_reports conn @ [row]\<rparr>))"


section \<open>Report intake (\<^verbatim>\<open>main.py\<close>)\<close>

text \<open>
  The handlers take the environment's contributions as arguments: whether the store is
  available, the fresh \<^verbatim>\<open>uuid4\<close> and the current time (and, for the web form, the
  addition of floats). They return the caller's response
  and the store. Request validation happens before the handler is called. The
  notification is sent after the commit, its failure is caught and logged, and it
  touches neither the response nor the store, so it has no counterpart here.
\<close>

definition create_report ::
  "bool \<Rightarrow> string \<Rightarrow> string \<Rightarrow> InternalReportRequest \<Rightarrow> db
     \<Rightarrow> InternalReportResponse http_response \<times> db"
where
  "create_report store_up uuid4 now request conn =
     (let report_id = uuid4;
          received_at = now;
          (final_score, labels, severity_bucket) =
            classify_report (InternalReportRequest.abuse_type request)
              (severity_score request)
              (InternalReportRequest.transcript_snippet request)
              (InternalReportRequest.trigger_rules request);
          tried =
            (case get_db store_up conn of
               Inl e \<Rightarrow> Inl e
             | Inr conn \<Rightarrow>
                 let message = get_response_template (response_templates conn)
                                 (InternalReportRequest.abuse_type request) final_score
                 in case insert_report
                      \<lparr>id' = report_id,
                       origin = Origin_value API_AGENT,
                       agent_client_id = Some (InternalReportRequest.agent_client_id request),
                       received_at = received_at,
                       user_hash = InternalReportRequest.user_hash request,
                       session_hash = InternalReportRequest.session_hash request,
                       abuse_type = AbuseType_value (InternalReportRequest.abuse_type request),
                       agent_severity_score = Some (severity_score request),
                       final_severity_score = Some final_score,
                       transcript_snippet = Some (InternalReportRequest.transcript_snippet request),
                       trigger_rules =
                         (case InternalReportRequest.trigger_rules request of
                            None \<Rightarrow> None
                          | Some rs \<Rightarrow> if rs \<noteq> [] then Some rs else None),
                       classification_labels = Some labels,
                       spam_status = SpamStatus_value UNSCREENED,
                       spam_score = None,
                       spam_filter_model = None,
                       signal_label = None,
                       severity_bucket = Some (SeverityBucket_value severity_bucket),
                       vendor_notification_status = Some ''NONE'',
                       vendor_notification_at = None,
                       web_report_type = None,
                       web_ai_system = None,
                       web_is_urgent = None,
                       web_contact_email = None,
                       web_client_ip_hash = None\<rparr> conn of
                      Inl e \<Rightarrow> Inl e
                    | Inr conn \<Rightarrow> Inr (message, conn))
      in case tried of
           Inr (message, conn) \<Rightarrow>
             (Response \<lparr>InternalReportResponse.report_id = report_id,
                        InternalReportResponse.final_severity_score = final_score,
                        InternalReportResponse.classification_labels = labels,
                        message_to_agent = message\<rparr>,
              conn)
         | Inl e \<Rightarrow>
             (Response \<lparr>InternalReportResponse.report_id = ''error'',
                        InternalReportResponse.final_severity_score = 0.5,
                        InternalReportResponse.classification_labels = [''PROCESSING_ERROR''],
                        message_to_agent = FALLBACK_RESPONSE\<rparr>,
              conn))"

text \<open>
  Lines 151 to 159 of \<open>create_web_report\<close>: the initial severity. The sum
  \<^verbatim>\<open>initial_severity + 0.2\<close> is a sum of doubles, and the rounded result is what the
  endpoint stores: for 0.7 and 0.2 it is 0.8999999999999999. Python's addition of floats
  is therefore an argument, \<open>float_add\<close>, of which nothing is assumed.
\<close>

definition initial_severity_of :: "(real \<Rightarrow> real \<Rightarrow> real) \<Rightarrow> WebReportRequest \<Rightarrow> real" where
  "initial_severity_of float_add request =
     (let initial_severity = 0.5;
          initial_severity =
            (if WebReportType_value (report_type request) = ''AI_BEING_ABUSED'' then 0.6
             else if WebReportType_value (report_type request) = ''AI_BEING_MISUSED_TO_HARM_OTHERS''
               then 0.7
             else initial_severity)
      in if is_urgent request then min (float_add initial_severity 0.2) 1.0
         else initial_severity)"

definition create_web_report ::
  "(real \<Rightarrow> real \<Rightarrow> real) \<Rightarrow> bool \<Rightarrow> string \<Rightarrow> string \<Rightarrow> WebReportRequest \<Rightarrow> db
     \<Rightarrow> WebReportResponse http_response \<times> db"
where
  "create_web_report float_add store_up uuid4 now request conn =
     (let report_id = uuid4;
          received_at = now;
          initial_severity = initial_severity_of float_add request;
          (unused, labels, severity_bucket) =
            classify_report OTHER initial_severity (description request) None;
          tried =
            (case get_db store_up conn of
               Inl e \<Rightarrow> Inl e
             | Inr conn \<Rightarrow>
                 insert_report
                   \<lparr>id' = report_id,
                    origin = Origin_value WEB_HUMAN,
                    agent_client_id = None,
                    received_at = received_at,
                    user_hash = None,
                    session_hash = None,
                    abuse_type = AbuseType_value OTHER,
                    agent_severity_score = Some initial_severity,
                    final_severity_score = Some initial_severity,
                    transcript_snippet = Some (description request),
                    trigger_rules = None,
                    classification_labels = Some labels,
                    spam_status = SpamStatus_value UNSCREENED,
                    spam_score = None,
                    spam_filter_model = None,
                    signal_label = None,
                    severity_bucket = Some (SeverityBucket_value severity_bucket),
                    vendor_notification_status = Some ''NONE'',
                    vendor_notification_at = None,
                    web_report_type = Some (WebReportType_value (report_type request)),
                    web_ai_system = ai_system request,
                    web_is_urgent = Some (if is_urgent request then 1 else 0),
                    web_contact_email = contact_email request,
                    web_client_ip_hash = Some (client_ip_hash request)\<rparr> conn)
      in case tried of
           Inr conn \<Rightarrow>
             (Response \<lparr>WebReportResponse.report_id = report_id, accepted = True\<rparr>, conn)
         | Inl e \<Rightarrow> (HTTPException 500 ''Internal error'', conn))"


section \<open>The worker's batch and loop (\<^verbatim>\<open>spam_worker.py\<close>)\<close>

text \<open>
  The batch query: \<^verbatim>\<open>WHERE spam_status = 'UNSCREENED' ORDER BY received_at ASC LIMIT ?\<close>.
  \<^verbatim>\<open>received_at\<close> is a text column, compared as text; rows with equal \<^verbatim>\<open>received_at\<close>
  stay in table order.
\<close>

definition unscreened_batch :: "nat \<Rightarrow> report list \<Rightarrow> report list" where
  "unscreened_batch limit rows =
     take limit (sort_key received_at (filter (\<lambda>r. spam_status r = ''UNSCREENED'') rows))"

text \<open>The five selected columns: \<^verbatim>\<open>id, origin, abuse_type, agent_severity_score,
  transcript_snippet\<close>.\<close>

type_synonym selected = "string \<times> string \<times> string \<times> real option \<times> string option"

definition select_columns :: "report \<Rightarrow> selected" where
  "select_columns r =
     (id' r, origin r, abuse_type r, agent_severity_score r, transcript_snippet r)"

text \<open>\<^verbatim>\<open>report[3] or 0.5\<close> and \<^verbatim>\<open>report[4] or ""\<close>: Python's \<^verbatim>\<open>or\<close> takes the right operand
  when the left one is false, and \<^verbatim>\<open>None\<close>, \<^verbatim>\<open>0.0\<close> and the empty string are false.\<close>

definition or_float :: "real option \<Rightarrow> real \<Rightarrow> real" where
  "or_float x d = (case x of None \<Rightarrow> d | Some v \<Rightarrow> if v = 0 then d else v)"

definition or_str :: "string option \<Rightarrow> string \<Rightarrow> string" where
  "or_str x d = (case x of None \<Rightarrow> d | Some v \<Rightarrow> if v = [] then d else v)"

text \<open>
  Binding a value of the verdict as a parameter of the \<^verbatim>\<open>UPDATE\<close>: \<^verbatim>\<open>None\<close> is bound as
  \<^verbatim>\<open>NULL\<close>, a string as text, a number as a number, which the text column stores as text;
  a list or a dictionary cannot be bound, and \<^verbatim>\<open>execute\<close> raises.
\<close>

fun bind_parameter :: "json \<Rightarrow> exn + string option" where
  "bind_parameter JNull = Inr None"
| "bind_parameter (JString s) = Inr (Some s)"
| "bind_parameter (JNumber t) = Inr (Some t)"
| "bind_parameter JCompound = Inl InterfaceError"

text \<open>The \<^verbatim>\<open>SET\<close> clauses of the two updates, and \<^verbatim>\<open>UPDATE ... WHERE id = ?\<close>.\<close>

definition set_verdict ::
  "string \<Rightarrow> string option \<Rightarrow> string option \<Rightarrow> string \<Rightarrow> report \<Rightarrow> report" where
  "set_verdict status label bucket model r =
     r\<lparr>spam_status := status,
       signal_label := label,
       severity_bucket :=
         (case severity_bucket r of
            Some b \<Rightarrow> Some b
          | None \<Rightarrow> bucket),
       spam_filter_model := Some model\<rparr>"

definition set_maybe_spam :: "report \<Rightarrow> report" where
  "set_maybe_spam r = r\<lparr>spam_status := ''MAYBE_SPAM''\<rparr>"

definition update_where_id :: "(report \<Rightarrow> report) \<Rightarrow> string \<Rightarrow> report list \<Rightarrow> report list" where
  "update_where_id set_clause rid rows =
     map (\<lambda>r. if id' r = rid then set_clause r else r) rows"

text \<open>
  The \<^verbatim>\<open>execute\<close> of the first update (lines 118 to 134). It raises when a parameter
  cannot be bound, and when it would store \<^verbatim>\<open>NULL\<close> in \<^verbatim>\<open>spam_status\<close>, which is declared
  \<^verbatim>\<open>NOT NULL\<close>, in a row.
\<close>

definition execute_verdict_update ::
  "verdict \<Rightarrow> string \<Rightarrow> string \<Rightarrow> report list \<Rightarrow> exn + report list" where
  "execute_verdict_update result model rid rows =
     (case bind_parameter (verdict.spam_status result) of
        Inl e \<Rightarrow> Inl e
      | Inr status \<Rightarrow>
     (case bind_parameter (verdict.signal_label result) of
        Inl e \<Rightarrow> Inl e
      | Inr label \<Rightarrow>
     (case bind_parameter (verdict.severity_bucket result) of
        Inl e \<Rightarrow> Inl e
      | Inr bucket \<Rightarrow>
     (case status of
        None \<Rightarrow> if rid \<in> id' ` set rows then Inl IntegrityError else Inr rows
      | Some status \<Rightarrow> Inr (update_where_id (set_verdict status label bucket model) rid rows)))))"

text \<open>What the worker passes to \<open>classify_with_llm\<close> for a fetched row (lines 109 to
  115), and the update that follows from the result (lines 117 to 144). A dictionary with
  three keys is true, so every result other than \<^verbatim>\<open>None\<close> takes the first branch.\<close>

definition screen :: "settings \<Rightarrow> llm \<Rightarrow> selected \<Rightarrow> verdict option" where
  "screen settings llm report =
     (case report of (rid, orig, atype, score, snip) \<Rightarrow>
        let severity_score = or_float score 0.5;
            snippet = or_str snip []
        in classify_with_llm settings llm orig atype severity_score snippet)"

definition write_back ::
  "settings \<Rightarrow> verdict option \<Rightarrow> string \<Rightarrow> report list \<Rightarrow> exn + report list" where
  "write_back settings result rid rows =
     (case result of
        Some result \<Rightarrow> execute_verdict_update result (OPENROUTER_MODEL settings) rid rows
      | None \<Rightarrow> Inr (update_where_id set_maybe_spam rid rows))"

text \<open>
  For the statements about a batch: the row that an update which does not raise leaves in
  the place of a row \<open>r\<close> with the given id, by the result of \<open>classify_with_llm\<close>.
\<close>

definition row_after :: "settings \<Rightarrow> verdict option \<Rightarrow> report \<Rightarrow> report" where
  "row_after settings result r =
     (case result of
        None \<Rightarrow> set_maybe_spam r
      | Some v \<Rightarrow>
          (case bind_parameter (verdict.spam_status v) of
             Inr (Some status) \<Rightarrow>
               (case bind_parameter (verdict.signal_label v) of
                  Inr label \<Rightarrow>
                    (case bind_parameter (verdict.severity_bucket v) of
                       Inr bucket \<Rightarrow>
                         set_verdict status label bucket (OPENROUTER_MODEL settings) r
                     | Inl e \<Rightarrow> r)
                | Inl e \<Rightarrow> r)
           | Inr None \<Rightarrow> r
           | Inl e \<Rightarrow> r))"

text \<open>The \<^verbatim>\<open>for\<close> loop over the fetched rows, on the table and the counter. An exception
  of an update leaves the loop.\<close>

fun for_reports ::
  "settings \<Rightarrow> llm \<Rightarrow> selected list \<Rightarrow> report list \<times> nat \<Rightarrow> exn + (report list \<times> nat)" where
  "for_reports settings llm [] st = Inr st"
| "for_reports settings llm (report # reports) (rows, processed) =
     (let rid = fst report;
          result = screen settings llm report
      in case write_back settings result rid rows of
           Inl e \<Rightarrow> Inl e
         | Inr rows \<Rightarrow> for_reports settings llm reports (rows, processed + 1))"

text \<open>
  \<open>process_batch\<close> commits once, after the loop. An exception inside the loop leaves the
  \<^verbatim>\<open>with\<close> block, the connection is closed without a commit, and the updates made so far
  are discarded: the store is as it was.
\<close>

definition process_batch :: "settings \<Rightarrow> llm \<Rightarrow> bool \<Rightarrow> db \<Rightarrow> exn + (db \<times> nat)" where
  "process_batch settings llm store_up conn =
     (case get_db store_up conn of
        Inl e \<Rightarrow> Inl e
      | Inr conn \<Rightarrow>
          let reports = map select_columns
                          (unscreened_batch (SPAM_WORKER_BATCH_SIZE settings) (distress_reports conn))
          in case for_reports settings llm reports (distress_reports conn, 0) of
               Inl e \<Rightarrow> Inl e
             | Inr (rows, processed) \<Rightarrow> Inr (conn\<lparr>distress_reports := rows\<rparr>, processed))"

text \<open>
  A batch is one step on the store: no other write happens between its query and its
  commit.

  \<open>spam_worker_loop\<close> is \<^verbatim>\<open>while True\<close>: it has no exit. Its model runs one iteration for
  each element of a list that gives, for that cycle, the availability of the store and
  the behaviour of the external service; the result is the store after these cycles and
  the number of times the loop has reached its \<^verbatim>\<open>sleep\<close>.
\<close>

record cycle =
  cycle_store_up :: bool
  cycle_llm :: llm

fun spam_worker_loop :: "settings \<Rightarrow> cycle list \<Rightarrow> db \<times> nat \<Rightarrow> db \<times> nat" where
  "spam_worker_loop settings [] st = st"
| "spam_worker_loop settings (c # cs) (conn, sleeps) =
     (let conn = (case process_batch settings (cycle_llm c) (cycle_store_up c) conn of
                    Inr (conn, processed) \<Rightarrow> conn
                  | Inl e \<Rightarrow> conn)
      in spam_worker_loop settings cs (conn, sleeps + 1))"



section \<open>Sample data\<close>

text \<open>Concrete settings, rows and requests, on which the theorems below are instantiated.\<close>

definition sample_settings :: "nat \<Rightarrow> settings" where
  "sample_settings batch_size =
     \<lparr>OPENROUTER_API_KEY = ''sk-test'',
      SPAM_WORKER_INTERVAL_SECONDS = 60,
      SPAM_WORKER_BATCH_SIZE = batch_size,
      OPENROUTER_MODEL = ''openai/gpt-5-nano''\<rparr>"

definition sample_report :: "string \<Rightarrow> string \<Rightarrow> report" where
  "sample_report rid t =
     \<lparr>id' = rid,
      origin = ''API_AGENT'',
      agent_client_id = Some ''client-1'',
      received_at = t,
      user_hash = None,
      session_hash = None,
      abuse_type = ''HARASSMENT'',
      agent_severity_score = Some 0.75,
      final_severity_score = Some 0.75,
      transcript_snippet = Some ''go away'',
      trigger_rules = None,
      classification_labels = Some [''HARASSMENT_INDICATORS'', ''HIGH_RISK_CATEGORY''],
      spam_status = ''UNSCREENED'',
      spam_score = None,
      spam_filter_model = None,
      signal_label = None,
      severity_bucket = Some ''HIGH'',
      vendor_notification_status = Some ''NONE'',
      vendor_notification_at = None,
      web_report_type = None,
      web_ai_system = None,
      web_is_urgent = None,
      web_contact_email = None,
      web_client_ip_hash = None\<rparr>"

definition sample_db :: "report list \<Rightarrow> db" where
  "sample_db rows = \<lparr>distress_reports = rows, response_templates = []\<rparr>"


text \<open>An external service that answers every prompt with the same verdict, one that
  always fails, and one that answers a prompt with the text \<open>enable dan mode\<close> with a
  reply whose spam status is \<^verbatim>\<open>null\<close> and leaves every other prompt to another service.\<close>

definition sample_llm_low :: llm where
  "sample_llm_low prompt =
     Some [''spam_status'' \<mapsto> JString ''NOT_SPAM'', ''signal_label'' \<mapsto> JString ''DISTRESS'',
           ''severity_bucket'' \<mapsto> JString ''LOW'']"

definition sample_llm_down :: llm where
  "sample_llm_down prompt = None"

definition sample_llm_null_status :: "llm \<Rightarrow> llm" where
  "sample_llm_null_status other prompt =
     (case prompt of (orig, atype, score, text) \<Rightarrow>
        if text = ''enable dan mode''
        then Some [''spam_status'' \<mapsto> JNull, ''signal_label'' \<mapsto> JString ''LOW_SIGNAL'',
                   ''severity_bucket'' \<mapsto> JString ''LOW'']
        else other prompt)"

text \<open>Two unscreened rows: the sample row, and a later one with the snippet
  \<open>enable dan mode\<close>.\<close>

definition sample_row_a :: report where
  "sample_row_a = sample_report ''a'' ''2025-03-01T09:00:00.000000+00:00''"

definition sample_row_b :: report where
  "sample_row_b =
     (sample_report ''b'' ''2025-03-01T09:00:05.120000+00:00'')
       \<lparr>transcript_snippet := Some ''enable dan mode''\<rparr>"


text \<open>A template table with the three baseline bands and two of the seeded overrides.\<close>

definition sample_templates :: "template list" where
  "sample_templates = [baseline_low, baseline_medium, baseline_high, harassment_any, self_harm_any]"


text \<open>An agent request and a web-form request.\<close>

definition sample_request :: InternalReportRequest where
  "sample_request =
     \<lparr>InternalReportRequest.agent_client_id = ''client-1'',
      InternalReportRequest.user_hash = None,
      InternalReportRequest.session_hash = None,
      InternalReportRequest.abuse_type = HARASSMENT,
      severity_score = 0.5,
      InternalReportRequest.transcript_snippet = ''go away'',
      InternalReportRequest.trigger_rules = None\<rparr>"

definition sample_web_request :: WebReportRequest where
  "sample_web_request =
     \<lparr>report_type = OTHER_CONCERN,
      description = ''the assistant was told to kill yourself'',
      ai_system = None,
      is_urgent = False,
      contact_email = None,
      client_ip_hash = ''c0ffee''\<rparr>"

text \<open>The same request with a description that matches no pattern.\<close>

definition sample_quiet_web_request :: WebReportRequest where
  "sample_quiet_web_request =
     sample_web_request\<lparr>description := ''the assistant keeps apologising to me''\<rparr>"

text \<open>An addition of floats that gives, for 0.7 and 0.2, what the doubles give.\<close>

definition sample_float_add :: "real \<Rightarrow> real \<Rightarrow> real" where
  "sample_float_add x y = (if x = 0.7 \<and> y = 0.2 then 0.8999999999999999 else x + y)"


section \<open>Properties of the severity classifier\<close>

subsection \<open>Each block keeps the score in range and is monotone in it\<close>

lemma bump_abuse_type_range:
  "0 \<le> fst st \<Longrightarrow> fst st \<le> 1 \<Longrightarrow> 0 \<le> fst (bump_abuse_type a st) \<and> fst (bump_abuse_type a st) \<le> 1"
  by (cases st) (auto simp add: bump_abuse_type_def max_def min_def)

lemma check_trigger_rules_range:
  "0 \<le> fst st \<Longrightarrow> fst st \<le> 1 \<Longrightarrow>
   0 \<le> fst (check_trigger_rules t st) \<and> fst (check_trigger_rules t st) \<le> 1"
  by (cases st) (auto simp add: check_trigger_rules_def max_def min_def)

lemma harassment_step_range:
  "0 \<le> fst st \<Longrightarrow> fst st \<le> 1 \<Longrightarrow>
   0 \<le> fst (harassment_step n st) \<and> fst (harassment_step n st) \<le> 1"
  by (cases st) (auto simp add: harassment_step_def max_def min_def)

lemma self_harm_step_range:
  "0 \<le> fst st \<Longrightarrow> fst st \<le> 1 \<Longrightarrow>
   0 \<le> fst (self_harm_step n st) \<and> fst (self_harm_step n st) \<le> 1"
  by (cases st) (auto simp add: self_harm_step_def max_def min_def)

lemma jailbreak_step_range:
  "0 \<le> fst st \<Longrightarrow> fst st \<le> 1 \<Longrightarrow>
   0 \<le> fst (jailbreak_step n st) \<and> fst (jailbreak_step n st) \<le> 1"
  by (cases st) (auto simp add: jailbreak_step_def max_def min_def)

lemma identity_step_range:
  "0 \<le> fst st \<Longrightarrow> fst st \<le> 1 \<Longrightarrow>
   0 \<le> fst (identity_step n st) \<and> fst (identity_step n st) \<le> 1"
  by (cases st) (auto simp add: identity_step_def max_def min_def)

lemma determine_bucket_score: "fst (determine_bucket st) = fst st"
  by (cases st) (auto simp add: determine_bucket_def max_def min_def)

lemma determine_bucket_thresholds:
  "(snd (snd (determine_bucket st)) = HIGH \<longleftrightarrow> fst st \<ge> 0.7) \<and>
   (snd (snd (determine_bucket st)) = MEDIUM \<longleftrightarrow> 0.4 \<le> fst st \<and> fst st < 0.7) \<and>
   (snd (snd (determine_bucket st)) = LOW \<longleftrightarrow> fst st < 0.4)"
  by (cases st) (auto simp add: determine_bucket_def)

lemma classify_report_range:
  assumes "0 \<le> s" "s \<le> 1"
  shows "0 \<le> fst (classify_report a s snip t) \<and> fst (classify_report a s snip t) \<le> 1"
  unfolding classify_report_def Let_def determine_bucket_score
  using assms
  by (intro identity_step_range[THEN conjunct1] identity_step_range[THEN conjunct2] conjI
        jailbreak_step_range[THEN conjunct1] jailbreak_step_range[THEN conjunct2]
        self_harm_step_range[THEN conjunct1] self_harm_step_range[THEN conjunct2]
        harassment_step_range[THEN conjunct1] harassment_step_range[THEN conjunct2]
        check_trigger_rules_range[THEN conjunct1] check_trigger_rules_range[THEN conjunct2]
        bump_abuse_type_range[THEN conjunct1] bump_abuse_type_range[THEN conjunct2]) simp_all

lemma classify_report_bucket:
  "(snd (snd (classify_report a s snip t)) = HIGH \<longleftrightarrow> fst (classify_report a s snip t) \<ge> 0.7) \<and>
   (snd (snd (classify_report a s snip t)) = MEDIUM \<longleftrightarrow>
      0.4 \<le> fst (classify_report a s snip t) \<and> fst (classify_report a s snip t) < 0.7) \<and>
   (snd (snd (classify_report a s snip t)) = LOW \<longleftrightarrow> fst (classify_report a s snip t) < 0.4)"
  unfolding classify_report_def Let_def determine_bucket_score
  by (rule determine_bucket_thresholds)


lemma bump_abuse_type_mono:
  "fst st \<le> fst st' \<Longrightarrow> fst (bump_abuse_type a st) \<le> fst (bump_abuse_type a st')"
  by (cases st; cases st') (auto simp add: bump_abuse_type_def max_def min_def)

lemma harassment_step_mono:
  "fst st \<le> fst st' \<Longrightarrow> fst (harassment_step n st) \<le> fst (harassment_step n st')"
  by (cases st; cases st') (auto simp add: harassment_step_def max_def min_def)

lemma self_harm_step_mono:
  "fst st \<le> fst st' \<Longrightarrow> fst (self_harm_step n st) \<le> fst (self_harm_step n st')"
  by (cases st; cases st') (auto simp add: self_harm_step_def max_def min_def)

lemma jailbreak_step_mono:
  "fst st \<le> fst st' \<Longrightarrow> fst (jailbreak_step n st) \<le> fst (jailbreak_step n st')"
  by (cases st; cases st') (auto simp add: jailbreak_step_def max_def min_def)

lemma identity_step_mono:
  "fst st \<le> fst st' \<Longrightarrow> fst (identity_step n st) \<le> fst (identity_step n st')"
  by (cases st; cases st') (auto simp add: identity_step_def max_def min_def)

lemma bump_abuse_type_le_1: "fst st \<le> 1 \<Longrightarrow> fst (bump_abuse_type a st) \<le> 1"
  by (cases st) (auto simp add: bump_abuse_type_def max_def min_def)

text \<open>With a score of at most 1, the trigger-rule block is monotone in the number of rules.\<close>

lemma check_trigger_rules_length_mono:
  assumes "fst st \<le> 1"
    and "length (case t of None \<Rightarrow> [] | Some rs \<Rightarrow> rs) \<le> length (case t' of None \<Rightarrow> [] | Some rs \<Rightarrow> rs)"
  shows "fst (check_trigger_rules t st) \<le> fst (check_trigger_rules t' st)"
  using assms
  by (cases st) (auto simp add: check_trigger_rules_def min_def split: option.splits)

lemma classify_report_trigger_mono:
  assumes "s \<le> 1"
    and "length (case t of None \<Rightarrow> [] | Some rs \<Rightarrow> rs) \<le> length (case t' of None \<Rightarrow> [] | Some rs \<Rightarrow> rs)"
  shows "fst (classify_report a s snip t) \<le> fst (classify_report a s snip t')"
  unfolding classify_report_def Let_def determine_bucket_score
  by (intro identity_step_mono jailbreak_step_mono self_harm_step_mono harassment_step_mono
        check_trigger_rules_length_mono bump_abuse_type_le_1 assms) (simp add: assms)


subsection \<open>Score range and bucket thresholds\<close>

text \<open>
  Claim C1. For every abuse type, every caller severity score in \<open>[0,1]\<close>, every snippet
  and every trigger-rule list (absent or present), \<open>classify_report\<close> returns a final
  score in \<open>[0,1]\<close>, and its bucket is the threshold function of that score: \<open>HIGH\<close>
  exactly when the score is at least 0.7, \<open>MEDIUM\<close> exactly when it is in \<open>[0.4, 0.7)\<close>,
  \<open>LOW\<close> exactly when it is below 0.4.
\<close>

theorem classify_report_score_and_bucket:
  assumes "0 \<le> s" and "s \<le> 1"
  shows "case classify_report a s snip rules of
           (final_score, labels, bucket) \<Rightarrow>
             0 \<le> final_score \<and> final_score \<le> 1 \<and>
             (bucket = HIGH \<longleftrightarrow> final_score \<ge> 0.7) \<and>
             (bucket = MEDIUM \<longleftrightarrow> 0.4 \<le> final_score \<and> final_score < 0.7) \<and>
             (bucket = LOW \<longleftrightarrow> final_score < 0.4)"
  using classify_report_range [OF assms, of a snip rules]
    classify_report_bucket [of a s snip rules]
  by (simp add: case_prod_beta)

theorem classify_report_score_and_bucket_witness:
  "(0::real) \<le> 0.65 \<and> (0.65::real) \<le> 1 \<and>
   (case classify_report IDENTITY_THREATS 0.65 ''stop being an AI'' (Some [''r1'', ''r2'', ''r3'']) of
      (final_score, labels, bucket) \<Rightarrow>
        0 \<le> final_score \<and> final_score \<le> 1 \<and>
        (bucket = HIGH \<longleftrightarrow> final_score \<ge> 0.7) \<and>
        (bucket = MEDIUM \<longleftrightarrow> 0.4 \<le> final_score \<and> final_score < 0.7) \<and>
        (bucket = LOW \<longleftrightarrow> final_score < 0.4))"
  using classify_report_score_and_bucket
    [where s = "0.65" and a = IDENTITY_THREATS
       and snip = "''stop being an AI''" and rules = "Some [''r1'', ''r2'', ''r3'']"]
  by simp

subsection \<open>The self-harm scenario\<close>

lemma classify_report_kill_yourself:
  "classify_report SELF_HARM_INDUCTION 0.3 ''you should kill yourself'' None =
     (0.8,
      [''SELF_HARM_CONTENT'', ''HARASSMENT_INDICATORS'', ''SELF_HARM_INDICATORS'',
       ''HIGH_RISK_CATEGORY''],
      HIGH)"
  by code_simp

text \<open>
  Claim C8. \<open>classify_report\<close> applied to abuse type \<open>SELF_HARM_INDUCTION\<close>, caller score
  0.3, snippet "you should kill yourself" and no trigger rules returns a final score of at
  least 0.8, labels that contain both \<open>SELF_HARM_CONTENT\<close> (from the abuse type) and
  \<open>SELF_HARM_INDICATORS\<close> (from the pattern scan), and the bucket \<open>HIGH\<close>.
\<close>

theorem classify_report_self_harm_scenario:
  "case classify_report SELF_HARM_INDUCTION 0.3 ''you should kill yourself'' None of
     (final_score, labels, bucket) \<Rightarrow>
       final_score \<ge> 0.8 \<and>
       List.member labels ''SELF_HARM_CONTENT'' \<and>
       List.member labels ''SELF_HARM_INDICATORS'' \<and>
       bucket = HIGH"
  by (simp add: classify_report_kill_yourself)

subsection \<open>More trigger rules never lower the score\<close>

text \<open>
  Claim C9. For every abuse type, caller score and snippet, and for every two trigger-rule
  lists of which the second contains every element of the first (counted with
  multiplicity) and possibly more, the final score for the larger list is at least the
  final score for the smaller one. An absent list counts as the empty one, as in the code.
  A caller score is a score of the data model, hence at most 1; the bound is needed,
  because the additive steps clamp at 1.0.
\<close>

theorem classify_report_more_trigger_rules:
  assumes "s \<le> 1"
    and "mset (case rules of None \<Rightarrow> [] | Some rs \<Rightarrow> rs)
           \<subseteq># mset (case rules' of None \<Rightarrow> [] | Some rs \<Rightarrow> rs)"
  shows "fst (classify_report a s snip rules)
           \<le> fst (classify_report a s snip rules')"
proof -
  have "length (case rules of None \<Rightarrow> [] | Some rs \<Rightarrow> rs)
          \<le> length (case rules' of None \<Rightarrow> [] | Some rs \<Rightarrow> rs)"
    using size_mset_mono [OF assms(2)] by simp
  with assms(1) show ?thesis
    by (rule classify_report_trigger_mono)
qed

theorem classify_report_more_trigger_rules_witness:
  "(0.5::real) \<le> 1 \<and>
   mset [''r1'', ''r2''] \<subseteq># mset [''r0'', ''r1'', ''r2''] \<and>
   fst (classify_report COERCION 0.5 ''go away'' (Some [''r1'', ''r2'']))
     \<le> fst (classify_report COERCION 0.5 ''go away'' (Some [''r0'', ''r1'', ''r2'']))"
  using classify_report_more_trigger_rules
    [where s = "0.5" and rules = "Some [''r1'', ''r2'']"
       and rules' = "Some [''r0'', ''r1'', ''r2'']" and a = COERCION
       and snip = "''go away''"]
  by simp

section \<open>Properties of the worker's batch query\<close>


lemma unscreened_batch_mset:
  "mset (unscreened_batch n rows) \<subseteq># mset (filter (\<lambda>r. spam_status r = ''UNSCREENED'') rows)"
proof -
  let ?xs = "sort_key received_at (filter (\<lambda>r. spam_status r = ''UNSCREENED'') rows)"
  have "mset (take n ?xs) \<subseteq># mset (take n ?xs @ drop n ?xs)"
    unfolding mset_append by (rule mset_subset_eq_add_left)
  then have "mset (take n ?xs) \<subseteq># mset ?xs"
    by (simp only: append_take_drop_id)
  then show ?thesis
    by (simp add: unscreened_batch_def)
qed


lemma unscreened_batch_set:
  "r \<in> set (unscreened_batch n rows) \<Longrightarrow> r \<in> set rows \<and> spam_status r = ''UNSCREENED''"
  unfolding unscreened_batch_def
  by (auto dest!: in_set_takeD)







section \<open>Properties of the worker's write-back\<close>

subsection \<open>A reply with a null spam status\<close>

text \<open>\<open>classify_with_llm\<close> returns \<^verbatim>\<open>None\<close> for a row exactly when no API key is configured
  or the external service fails on the row's prompt. A reply that is a JSON object is a
  result, whatever its values are.\<close>

lemma screen_None_iff:
  "screen settings llm (select_columns r) = None \<longleftrightarrow>
     OPENROUTER_API_KEY settings = [] \<or>
     llm (origin r, abuse_type r, or_float (agent_severity_score r) 0.5,
          take 512 (or_str (transcript_snippet r) [])) = None"
  by (simp add: screen_def select_columns_def classify_with_llm_def Let_def split: option.splits)

text \<open>
  The two sample rows are unscreened, and row \<open>a\<close> is the older one. The service
  \<open>sample_llm_null_status\<close> answers the prompt of row \<open>b\<close> with a reply whose spam
  status is \<^verbatim>\<open>null\<close>. The update of row \<open>b\<close> then raises, after the update of row \<open>a\<close>
  and before the commit.
\<close>

lemma sample_rows:
  "id' sample_row_a = ''a''" "id' sample_row_b = ''b''"
  "spam_status sample_row_a = ''UNSCREENED''" "spam_status sample_row_b = ''UNSCREENED''"
  "signal_label sample_row_a = None" "spam_filter_model sample_row_a = None"
  "\<not> received_at sample_row_b \<le> received_at sample_row_a"
  "select_columns sample_row_a = (''a'', ''API_AGENT'', ''HARASSMENT'', Some 0.75, Some ''go away'')"
  "select_columns sample_row_b =
     (''b'', ''API_AGENT'', ''HARASSMENT'', Some 0.75, Some ''enable dan mode'')"
  by (simp_all add: sample_row_a_def sample_row_b_def sample_report_def select_columns_def
        less_eq_char_def less_char_def)

lemma sample_batch:
  "unscreened_batch (SPAM_WORKER_BATCH_SIZE (sample_settings 20)) [sample_row_b, sample_row_a] =
     [sample_row_a, sample_row_b]"
  by (simp add: unscreened_batch_def sample_settings_def sample_rows)

lemma sample_screen_low:
  "screen (sample_settings 20) (sample_llm_null_status sample_llm_low) (select_columns sample_row_a) =
     Some \<lparr>verdict.spam_status = JString ''NOT_SPAM'', verdict.signal_label = JString ''DISTRESS'',
           verdict.severity_bucket = JString ''LOW''\<rparr>"
  by (simp add: sample_rows screen_def classify_with_llm_def or_float_def or_str_def
        sample_settings_def sample_llm_null_status_def sample_llm_low_def dict_get_def)

lemma sample_screen_down:
  "screen (sample_settings 20) (sample_llm_null_status sample_llm_down) (select_columns sample_row_a) =
     None"
  by (simp add: sample_rows screen_def classify_with_llm_def or_float_def or_str_def
        sample_settings_def sample_llm_null_status_def sample_llm_down_def)

lemma sample_screen_null:
  "screen (sample_settings 20) (sample_llm_null_status other) (select_columns sample_row_b) =
     Some \<lparr>verdict.spam_status = JNull, verdict.signal_label = JString ''LOW_SIGNAL'',
           verdict.severity_bucket = JString ''LOW''\<rparr>"
  by (simp add: sample_rows screen_def classify_with_llm_def or_float_def or_str_def
        sample_settings_def sample_llm_null_status_def dict_get_def)

lemma null_status_update_raises:
  "rid \<in> id' ` set rows \<Longrightarrow>
   write_back settings
     (Some \<lparr>verdict.spam_status = JNull, verdict.signal_label = l, verdict.severity_bucket = b\<rparr>)
     rid rows \<noteq> Inr rows'"
  by (cases l; cases b) (simp_all add: write_back_def execute_verdict_update_def)


lemma select_columns_fst: "fst (select_columns r) = id' r"
  by (simp add: select_columns_def)

lemma sample_loop_low_raises:
  "for_reports (sample_settings 20) (sample_llm_null_status sample_llm_low)
     [select_columns sample_row_a, select_columns sample_row_b] ([sample_row_b, sample_row_a], 0) =
     Inl IntegrityError"
  by (simp add: sample_screen_low sample_screen_null select_columns_fst sample_rows(1,2)
        write_back_def execute_verdict_update_def update_where_id_def)

lemma sample_loop_down_raises:
  "for_reports (sample_settings 20) (sample_llm_null_status sample_llm_down)
     [select_columns sample_row_a, select_columns sample_row_b] ([sample_row_b, sample_row_a], 0) =
     Inl IntegrityError"
  by (simp add: sample_screen_down sample_screen_null select_columns_fst sample_rows(1,2)
        write_back_def execute_verdict_update_def update_where_id_def)

lemma sample_db_rows: "distress_reports (sample_db rows) = rows"
  by (simp add: sample_db_def)

lemma sample_batch_low_raises:
  "process_batch (sample_settings 20) (sample_llm_null_status sample_llm_low) True
     (sample_db [sample_row_b, sample_row_a]) = Inl IntegrityError"
  by (simp add: process_batch_def get_db_def sample_db_rows sample_batch sample_loop_low_raises
        del: for_reports.simps)

lemma sample_batch_down_raises:
  "process_batch (sample_settings 20) (sample_llm_null_status sample_llm_down) True
     (sample_db [sample_row_b, sample_row_a]) = Inl IntegrityError"
  by (simp add: process_batch_def get_db_def sample_db_rows sample_batch sample_loop_down_raises
        del: for_reports.simps)

lemma sample_batch_alone:
  "unscreened_batch (SPAM_WORKER_BATCH_SIZE (sample_settings 20)) [sample_row_b] = [sample_row_b]"
  by (simp add: unscreened_batch_def sample_settings_def sample_rows)

lemma sample_loop_alone_raises:
  "for_reports (sample_settings 20) (sample_llm_null_status sample_llm_down)
     [select_columns sample_row_b] ([sample_row_b], 0) = Inl IntegrityError"
  by (simp add: sample_screen_null select_columns_fst sample_rows(1,2)
        write_back_def execute_verdict_update_def)

lemma sample_batch_alone_raises:
  "process_batch (sample_settings 20) (sample_llm_null_status sample_llm_down) True
     (sample_db [sample_row_b]) = Inl IntegrityError"
  by (simp add: process_batch_def get_db_def sample_db_rows sample_batch_alone
        sample_loop_alone_raises del: for_reports.simps)

text \<open>
  Claim C2 says that a successful verdict always sets the report's spam status and signal
  label to the verdict's values and records the screening model. For row \<open>a\<close> the verdict
  is successful and well-formed (\<open>NOT_SPAM\<close>, \<open>DISTRESS\<close>, \<open>LOW\<close>), but the batch raises
  in the update of row \<open>b\<close> and is not committed: after the cycle the store is as before,
  and row \<open>a\<close> is still unscreened, without signal label and without screening model.
\<close>

theorem null_status_reply_discards_verdict:
  "screen (sample_settings 20) (sample_llm_null_status sample_llm_low) (select_columns sample_row_a) =
     Some \<lparr>verdict.spam_status = JString ''NOT_SPAM'', verdict.signal_label = JString ''DISTRESS'',
           verdict.severity_bucket = JString ''LOW''\<rparr> \<and>
   process_batch (sample_settings 20) (sample_llm_null_status sample_llm_low) True
     (sample_db [sample_row_b, sample_row_a]) = Inl IntegrityError \<and>
   spam_worker_loop (sample_settings 20)
     [\<lparr>cycle_store_up = True, cycle_llm = sample_llm_null_status sample_llm_low\<rparr>]
     (sample_db [sample_row_b, sample_row_a], 0) = (sample_db [sample_row_b, sample_row_a], 1) \<and>
   spam_status sample_row_a = ''UNSCREENED'' \<and>
   signal_label sample_row_a = None \<and>
   spam_filter_model sample_row_a = None"
  by (simp add: sample_screen_low sample_batch_low_raises sample_rows(3,5,6))

text \<open>
  Claim C3 says that every report for which the external classifier fails, a malformed
  reply included, is set to \<open>MAYBE_SPAM\<close> and is never selected again. Here the
  classifier fails for row \<open>a\<close> and the reply for row \<open>b\<close> is malformed (its spam
  status is \<^verbatim>\<open>null\<close>). The malformed reply is taken as a verdict, its update raises, and the
  batch is not committed: after the cycle the store is as before, row \<open>a\<close> has lost its
  \<open>MAYBE_SPAM\<close>, and the next cycle selects both rows again. Row \<open>b\<close> alone in a batch
  is not set to \<open>MAYBE_SPAM\<close> either.
\<close>

theorem null_status_reply_discards_maybe_spam:
  "screen (sample_settings 20) (sample_llm_null_status sample_llm_down) (select_columns sample_row_a) =
     None \<and>
   process_batch (sample_settings 20) (sample_llm_null_status sample_llm_down) True
     (sample_db [sample_row_b, sample_row_a]) = Inl IntegrityError \<and>
   spam_worker_loop (sample_settings 20)
     [\<lparr>cycle_store_up = True, cycle_llm = sample_llm_null_status sample_llm_down\<rparr>]
     (sample_db [sample_row_b, sample_row_a], 0) = (sample_db [sample_row_b, sample_row_a], 1) \<and>
   unscreened_batch (SPAM_WORKER_BATCH_SIZE (sample_settings 20))
     (distress_reports (fst (spam_worker_loop (sample_settings 20)
        [\<lparr>cycle_store_up = True, cycle_llm = sample_llm_null_status sample_llm_down\<rparr>]
        (sample_db [sample_row_b, sample_row_a], 0)))) = [sample_row_a, sample_row_b] \<and>
   process_batch (sample_settings 20) (sample_llm_null_status sample_llm_down) True
     (sample_db [sample_row_b]) = Inl IntegrityError"
  by (simp add: sample_screen_down sample_batch_down_raises sample_batch_alone_raises
        sample_batch sample_db_rows)

subsection \<open>A batch that commits\<close>

text \<open>
  The remaining lemmas are about a batch in which no update raises, so that
  \<open>process_batch\<close> reaches its commit. Ids are the primary key of the table: the
  statements assume that they are distinct, and the cycle keeps them so.
\<close>

declare select_columns_fst [simp]

lemma unscreened_batch_ids_distinct:
  assumes "distinct (map id' rows)"
  shows "distinct (map id' (unscreened_batch n rows))"
proof -
  have "distinct (map id' (filter (\<lambda>r. spam_status r = ''UNSCREENED'') rows))"
    using assms by (rule distinct_map_filter)
  moreover have "mset (map id' (sort_key received_at (filter (\<lambda>r. spam_status r = ''UNSCREENED'') rows)))
      = mset (map id' (filter (\<lambda>r. spam_status r = ''UNSCREENED'') rows))"
    by simp
  ultimately have "distinct (map id' (sort_key received_at (filter (\<lambda>r. spam_status r = ''UNSCREENED'') rows)))"
    using mset_eq_imp_distinct_iff by blast
  then show ?thesis
    unfolding unscreened_batch_def take_map [symmetric] by (rule distinct_take)
qed

lemma find_selected:
  assumes "distinct (map id' rows)" and "set batch \<subseteq> set rows" and "r \<in> set rows"
  shows "find (\<lambda>rep. fst rep = id' r) (map select_columns batch) =
           (if r \<in> set batch then Some (select_columns r) else None)"
proof -
  have inj: "inj_on id' (set rows)"
    using assms(1) by (simp add: distinct_map)
  have same: "r' = r" if "r' \<in> set batch" and "id' r' = id' r" for r'
    using that assms(2,3) inj by (meson inj_onD subsetD)
  show ?thesis
  proof (cases "r \<in> set batch")
    case True
    then have "\<exists>x. x \<in> set (map select_columns batch) \<and> fst x = id' r"
      by (intro exI [of _ "select_columns r"]) simp
    then obtain x where f: "find (\<lambda>rep. fst rep = id' r) (map select_columns batch) = Some x"
      by (cases "find (\<lambda>rep. fst rep = id' r) (map select_columns batch)")
         (simp_all add: find_None_iff)
    then have "x \<in> set (map select_columns batch)" and "fst x = id' r"
      by (auto simp add: find_Some_iff in_set_conv_nth simp del: set_map)
    then obtain r' where "r' \<in> set batch" and "x = select_columns r'" and "id' r' = id' r"
      by auto
    with same have "x = select_columns r" by blast
    with f True show ?thesis by simp
  next
    case False
    have "find (\<lambda>rep. fst rep = id' r) (map select_columns batch) = None"
      unfolding find_None_iff
    proof
      assume "\<exists>x. x \<in> set (map select_columns batch) \<and> fst x = id' r"
      then obtain r' where "r' \<in> set batch" and "id' r' = id' r"
        by auto
      with same False show False by blast
    qed
    with False show ?thesis by simp
  qed
qed

lemma filter_id_map:
  assumes "distinct (map id' rows)" and "r \<in> set rows" and "\<And>x. id' (F x) = id' x"
  shows "filter (\<lambda>x. id' x = id' r) (map F rows) = [F r]"
  using assms(1,2)
proof (induction rows)
  case Nil
  then show ?case by simp
next
  case (Cons x rows)
  show ?case
  proof (cases "x = r")
    case True
    then have "id' r \<notin> id' ` set rows"
      using Cons.prems(1) by simp
    then have "\<forall>x\<in>set rows. id' x \<noteq> id' r"
      by (metis imageI)
    then have "filter (\<lambda>x. id' x = id' r) (map F rows) = []"
      by (simp add: filter_empty_conv assms(3))
    with True show ?thesis by (simp add: assms(3))
  next
    case False
    then have r: "r \<in> set rows" using Cons.prems(2) by simp
    then have "id' x \<noteq> id' r"
      using Cons.prems(1) by (metis distinct.simps(2) imageI list.simps(9) set_map)
    then show ?thesis
      using Cons.IH r Cons.prems(1) by (simp add: assms(3))
  qed
qed

lemma screened_row_not_selected:
  assumes "distinct (map id' rows)" and "r' \<in> set rows"
    and "spam_status r' \<noteq> ''UNSCREENED''"
  shows "id' r' \<notin> id' ` set (unscreened_batch n rows)"
proof
  assume "id' r' \<in> id' ` set (unscreened_batch n rows)"
  then obtain x where x: "x \<in> set (unscreened_batch n rows)" and "id' x = id' r'"
    by (metis imageE)
  moreover have "x \<in> set rows" and st: "spam_status x = ''UNSCREENED''"
    using x unscreened_batch_set by blast+
  moreover have "inj_on id' (set rows)"
    using assms(1) by (simp add: distinct_map)
  ultimately have "x = r'"
    using assms(2) by (meson inj_onD)
  with st assms(3) show False by simp
qed

lemma filter_id_member:
  assumes "distinct (map id' rows)" and "r \<in> set rows"
  shows "filter (\<lambda>x. id' x = id' r) rows = [r]"
  using filter_id_map [OF assms, of "\<lambda>x. x"] by simp

lemma set_verdict_id [simp]: "id' (set_verdict status label bucket model r) = id' r"
  by (simp add: set_verdict_def)

lemma set_maybe_spam_id [simp]: "id' (set_maybe_spam r) = id' r"
  by (simp add: set_maybe_spam_def)

lemma row_after_id [simp]: "id' (row_after settings result r) = id' r"
  by (simp add: row_after_def split: option.splits sum.splits)

text \<open>An update that does not raise rewrites the rows with the given id by \<open>row_after\<close>
  and, for a verdict and a matching row, has bound all three of the verdict's values.\<close>

lemma write_back_Inr:
  assumes "write_back settings result rid rows = Inr rows'"
  shows "rows' = map (\<lambda>r. if id' r = rid then row_after settings result r else r) rows"
proof (cases result)
  case None
  from assms show ?thesis
    unfolding None by (auto simp add: write_back_def update_where_id_def row_after_def)
next
  case (Some v)
  from assms show ?thesis
    unfolding Some
    by (cases "bind_parameter (verdict.spam_status v)";
        cases "bind_parameter (verdict.signal_label v)";
        cases "bind_parameter (verdict.severity_bucket v)")
       (auto simp add: write_back_def execute_verdict_update_def row_after_def update_where_id_def
          map_idI split: option.splits if_splits)
qed

lemma write_back_binds:
  assumes "write_back settings (Some v) rid rows = Inr rows'" and "rid \<in> id' ` set rows"
  shows "\<exists>status label bucket.
           bind_parameter (verdict.spam_status v) = Inr (Some status) \<and>
           bind_parameter (verdict.signal_label v) = Inr label \<and>
           bind_parameter (verdict.severity_bucket v) = Inr bucket"
  using assms
  by (auto simp add: write_back_def execute_verdict_update_def
        split: option.splits sum.splits if_splits)


text \<open>The loop over a batch with distinct ids, when no update raises.\<close>

lemma for_reports_Cons_Inr:
  assumes "for_reports settings llm (rep # reps) (rows, p) = Inr x"
  obtains rows1 where
    "write_back settings (screen settings llm rep) (fst rep) rows = Inr rows1"
    and "for_reports settings llm reps (rows1, p + 1) = Inr x"
  using assms
  by (cases "write_back settings (screen settings llm rep) (fst rep) rows")
     (simp_all add: Let_def)

lemma for_reports_find:
  assumes "distinct (map fst reps)"
    and "for_reports settings llm reps (rows, p) = Inr (rows', p')"
  shows "rows' = map (\<lambda>r. case find (\<lambda>rep. fst rep = id' r) reps of
                            None \<Rightarrow> r
                          | Some rep \<Rightarrow> row_after settings (screen settings llm rep) r) rows \<and>
         p' = p + length reps"
  using assms
proof (induction reps arbitrary: rows p)
  case Nil
  then show ?case by simp
next
  case (Cons rep reps)
  from Cons.prems(2) obtain rows1 where
    wb: "write_back settings (screen settings llm rep) (fst rep) rows = Inr rows1"
    and rest: "for_reports settings llm reps (rows1, p + 1) = Inr (rows', p')"
    by (rule for_reports_Cons_Inr)
  have nin: "fst rep \<notin> fst ` set reps"
    using Cons.prems(1) by simp
  have fresh: "find (\<lambda>rep'. fst rep' = fst rep) reps = None"
    unfolding find_None_iff
  proof
    assume "\<exists>x. x \<in> set reps \<and> fst x = fst rep"
    then obtain x where "x \<in> set reps" and "fst x = fst rep"
      by blast
    then have "fst rep \<in> fst ` set reps"
      by (metis imageI)
    with nin show False by contradiction
  qed
  have d: "distinct (map fst reps)"
    using Cons.prems(1) by simp
  show ?case
    using Cons.IH [OF d rest]
    by (simp add: write_back_Inr [OF wb] fresh)
qed

lemma write_back_ids:
  assumes "write_back settings result rid rows = Inr rows'"
  shows "map id' rows' = map id' rows"
  unfolding write_back_Inr [OF assms] by (simp add: comp_def)

lemma for_reports_binds:
  assumes "for_reports settings llm reps (rows, p) = Inr x"
    and "rep \<in> set reps" and "fst rep \<in> id' ` set rows"
    and "screen settings llm rep = Some v"
  shows "\<exists>status label bucket.
           bind_parameter (verdict.spam_status v) = Inr (Some status) \<and>
           bind_parameter (verdict.signal_label v) = Inr label \<and>
           bind_parameter (verdict.severity_bucket v) = Inr bucket"
  using assms(1,2,3)
proof (induction reps arbitrary: rows p)
  case Nil
  then show ?case by simp
next
  case (Cons r0 reps)
  from Cons.prems(1) obtain rows1 where
    wb: "write_back settings (screen settings llm r0) (fst r0) rows = Inr rows1"
    and rest: "for_reports settings llm reps (rows1, p + 1) = Inr x"
    by (rule for_reports_Cons_Inr)
  show ?case
  proof (cases "rep = r0")
    case True
    have wb': "write_back settings (Some v) (fst rep) rows = Inr rows1"
      using wb assms(4) True by simp
    show ?thesis
      by (rule write_back_binds [OF wb' Cons.prems(3)])
  next
    case False
    then have "rep \<in> set reps"
      using Cons.prems(2) by simp
    moreover have "id' ` set rows1 = id' ` set rows"
      using write_back_ids [OF wb] by (metis set_map)
    ultimately show ?thesis
      using Cons.IH [OF rest] Cons.prems(3) by simp
  qed
qed


text \<open>The committed store: every row of the batch is rewritten once, by the result of
  \<open>classify_with_llm\<close> for that row; every other row is as before.\<close>

lemma process_batch_Inr:
  assumes "process_batch settings llm up conn = Inr (conn', n)"
  obtains rows' where
    "for_reports settings llm
       (map select_columns
          (unscreened_batch (SPAM_WORKER_BATCH_SIZE settings) (distress_reports conn)))
       (distress_reports conn, 0) = Inr (rows', n)"
    and "conn' = conn\<lparr>distress_reports := rows'\<rparr>"
  using assms
  by (cases up;
      cases "for_reports settings llm
               (map select_columns
                  (unscreened_batch (SPAM_WORKER_BATCH_SIZE settings) (distress_reports conn)))
               (distress_reports conn, 0)")
     (auto simp add: process_batch_def get_db_def Let_def)

lemma process_batch_commit:
  assumes "distinct (map id' (distress_reports conn))"
    and "process_batch settings llm up conn = Inr (conn', n)"
  shows "distress_reports conn' =
           map (\<lambda>r. if r \<in> set (unscreened_batch (SPAM_WORKER_BATCH_SIZE settings)
                                    (distress_reports conn))
                     then row_after settings (screen settings llm (select_columns r)) r
                     else r) (distress_reports conn) \<and>
         n = length (unscreened_batch (SPAM_WORKER_BATCH_SIZE settings) (distress_reports conn))"
proof -
  define batch where
    "batch = unscreened_batch (SPAM_WORKER_BATCH_SIZE settings) (distress_reports conn)"
  have sub: "set batch \<subseteq> set (distress_reports conn)"
    unfolding batch_def using unscreened_batch_set by blast
  have d: "distinct (map fst (map select_columns batch))"
    using unscreened_batch_ids_distinct [OF assms(1)] by (simp add: batch_def comp_def)
  from assms(2) obtain rows' where
    fr: "for_reports settings llm (map select_columns batch) (distress_reports conn, 0) =
           Inr (rows', n)"
    and c: "conn' = conn\<lparr>distress_reports := rows'\<rparr>"
    unfolding batch_def by (rule process_batch_Inr)
  have "rows' = map (\<lambda>r. if r \<in> set batch
                          then row_after settings (screen settings llm (select_columns r)) r
                          else r) (distress_reports conn) \<and>
        n = length batch"
    using for_reports_find [OF d fr]
    by (simp add: find_selected [OF assms(1) sub] cong: map_cong)
  then show ?thesis
    unfolding batch_def c by simp
qed

lemma committed_row:
  assumes "distinct (map id' (distress_reports conn))"
    and "process_batch settings llm up conn = Inr (conn', n)"
    and "r \<in> set (unscreened_batch (SPAM_WORKER_BATCH_SIZE settings) (distress_reports conn))"
  shows "distinct (map id' (distress_reports conn')) \<and>
         filter (\<lambda>x. id' x = id' r) (distress_reports conn') =
           [row_after settings (screen settings llm (select_columns r)) r]"
proof -
  let ?F = "\<lambda>r. if r \<in> set (unscreened_batch (SPAM_WORKER_BATCH_SIZE settings)
                                (distress_reports conn))
                  then row_after settings (screen settings llm (select_columns r)) r
                  else r"
  have idF: "\<And>x. id' (?F x) = id' x"
    by simp
  have rows: "distress_reports conn' = map ?F (distress_reports conn)"
    using process_batch_commit [OF assms(1,2)] by (rule conjunct1)
  have r: "r \<in> set (distress_reports conn)"
    using assms(3) unscreened_batch_set by blast
  have "filter (\<lambda>x. id' x = id' r) (map ?F (distress_reports conn)) = [?F r]"
    using assms(1) r idF by (rule filter_id_map)
  then have f: "filter (\<lambda>x. id' x = id' r) (map ?F (distress_reports conn)) =
      [row_after settings (screen settings llm (select_columns r)) r]"
    using assms(3) by (simp only: if_True)
  have "map id' (map ?F (distress_reports conn)) = map id' (distress_reports conn)"
    unfolding map_map comp_def idF ..
  then have d: "distinct (map id' (map ?F (distress_reports conn)))"
    using assms(1) by (simp only:)
  show ?thesis
    unfolding rows using d f by (rule conjI)
qed

text \<open>In a committed batch, a row for which \<open>classify_with_llm\<close> returned \<^verbatim>\<open>None\<close> differs from
  the row before in its spam status only, which is \<open>MAYBE_SPAM\<close>.\<close>

lemma committed_failure_row:
  assumes "distinct (map id' (distress_reports conn))"
    and "process_batch settings llm up conn = Inr (conn', n)"
    and "r \<in> set (unscreened_batch (SPAM_WORKER_BATCH_SIZE settings) (distress_reports conn))"
    and "screen settings llm (select_columns r) = None"
  shows "filter (\<lambda>x. id' x = id' r) (distress_reports conn') =
           [r\<lparr>spam_status := ''MAYBE_SPAM''\<rparr>]"
  using committed_row [OF assms(1,2,3)]
  by (simp add: assms(4) row_after_def set_maybe_spam_def)

text \<open>In a committed batch, a row for which \<open>classify_with_llm\<close> returned a verdict has the
  verdict's spam status and signal label as they were bound, the configured model as its
  screening model, and its severity bucket as before if that was set, and the verdict's
  otherwise. No other column changes.\<close>

lemma committed_verdict_row:
  assumes "distinct (map id' (distress_reports conn))"
    and "process_batch settings llm up conn = Inr (conn', n)"
    and "r \<in> set (unscreened_batch (SPAM_WORKER_BATCH_SIZE settings) (distress_reports conn))"
    and "screen settings llm (select_columns r) = Some v"
  shows "\<exists>status label bucket.
           bind_parameter (verdict.spam_status v) = Inr (Some status) \<and>
           bind_parameter (verdict.signal_label v) = Inr label \<and>
           bind_parameter (verdict.severity_bucket v) = Inr bucket \<and>
           filter (\<lambda>x. id' x = id' r) (distress_reports conn') =
             [r\<lparr>spam_status := status,
                signal_label := label,
                severity_bucket :=
                  (case severity_bucket r of Some b \<Rightarrow> Some b | None \<Rightarrow> bucket),
                spam_filter_model := Some (OPENROUTER_MODEL settings)\<rparr>]"
proof -
  from assms(2) obtain rows' where
    fr: "for_reports settings llm
           (map select_columns
              (unscreened_batch (SPAM_WORKER_BATCH_SIZE settings) (distress_reports conn)))
           (distress_reports conn, 0) = Inr (rows', n)"
    by (rule process_batch_Inr)
  have m: "select_columns r \<in> set (map select_columns
              (unscreened_batch (SPAM_WORKER_BATCH_SIZE settings) (distress_reports conn)))"
    using assms(3) by simp
  have "r \<in> set (distress_reports conn)"
    using assms(3) unscreened_batch_set by blast
  then have i: "fst (select_columns r) \<in> id' ` set (distress_reports conn)"
    by simp
  from for_reports_binds [OF fr m i assms(4)]
  obtain status label bucket where
    b: "bind_parameter (verdict.spam_status v) = Inr (Some status)"
       "bind_parameter (verdict.signal_label v) = Inr label"
       "bind_parameter (verdict.severity_bucket v) = Inr bucket"
    by blast
  have "filter (\<lambda>x. id' x = id' r) (distress_reports conn') =
          [set_verdict status label bucket (OPENROUTER_MODEL settings) r]"
    using committed_row [OF assms(1,2,3)]
    by (simp add: assms(4) row_after_def b)
  then show ?thesis
    using b unfolding set_verdict_def by blast
qed

text \<open>A row whose spam status is not \<open>UNSCREENED\<close> is not touched by a cycle, committed or
  not, and so by no number of cycles.\<close>

lemma cycle_keeps_screened_row:
  assumes "distinct (map id' (distress_reports conn))"
    and "r' \<in> set (distress_reports conn)"
    and "spam_status r' \<noteq> ''UNSCREENED''"
  shows "distinct (map id' (distress_reports
            (case process_batch settings llm up conn of
               Inr (conn', n) \<Rightarrow> conn' | Inl e \<Rightarrow> conn))) \<and>
         r' \<in> set (distress_reports
            (case process_batch settings llm up conn of
               Inr (conn', n) \<Rightarrow> conn' | Inl e \<Rightarrow> conn))"
proof (cases "process_batch settings llm up conn")
  case (Inl e)
  then show ?thesis
    using assms(1,2) by simp
next
  case (Inr x)
  obtain conn' n where x: "x = (conn', n)"
    by (cases x)
  have pb: "process_batch settings llm up conn = Inr (conn', n)"
    using Inr x by simp
  let ?F = "\<lambda>r. if r \<in> set (unscreened_batch (SPAM_WORKER_BATCH_SIZE settings)
                                (distress_reports conn))
                  then row_after settings (screen settings llm (select_columns r)) r
                  else r"
  have idF: "\<And>x. id' (?F x) = id' x"
    by simp
  have rows: "distress_reports conn' = map ?F (distress_reports conn)"
    using process_batch_commit [OF assms(1) pb] by (rule conjunct1)
  have "r' \<notin> set (unscreened_batch (SPAM_WORKER_BATCH_SIZE settings) (distress_reports conn))"
    using assms(3) unscreened_batch_set by blast
  then have Fr: "?F r' = r'"
    by (simp only: if_False)
  have "?F r' \<in> set (map ?F (distress_reports conn))"
    unfolding set_map using assms(2) by (rule imageI)
  then have m: "r' \<in> set (map ?F (distress_reports conn))"
    unfolding Fr .
  have "map id' (map ?F (distress_reports conn)) = map id' (distress_reports conn)"
    unfolding map_map comp_def idF ..
  then have d: "distinct (map id' (map ?F (distress_reports conn)))"
    using assms(1) by (simp only:)
  show ?thesis
    unfolding pb sum.case prod.case rows
    using d m by (rule conjI)
qed

lemma loop_keeps_screened_row:
  assumes "distinct (map id' (distress_reports conn))"
    and "r' \<in> set (distress_reports conn)"
    and "spam_status r' \<noteq> ''UNSCREENED''"
  shows "distinct (map id' (distress_reports (fst (spam_worker_loop settings cycles (conn, k))))) \<and>
         r' \<in> set (distress_reports (fst (spam_worker_loop settings cycles (conn, k))))"
  using assms(1,2)
proof (induction cycles arbitrary: conn k)
  case Nil
  then show ?case by simp
next
  case (Cons c cycles)
  from cycle_keeps_screened_row [OF Cons.prems assms(3)]
  show ?case
    by (simp add: Cons.IH)
qed

text \<open>A row set to \<open>MAYBE_SPAM\<close> by a committed batch stays as it is and is not selected
  again, whatever the later cycles do.\<close>

lemma committed_failure_stays:
  assumes "distinct (map id' (distress_reports conn))"
    and "process_batch settings llm up conn = Inr (conn', n)"
    and "r \<in> set (unscreened_batch (SPAM_WORKER_BATCH_SIZE settings) (distress_reports conn))"
    and "screen settings llm (select_columns r) = None"
  shows "filter (\<lambda>x. id' x = id' r)
           (distress_reports (fst (spam_worker_loop settings cycles (conn', k))))
           = [r\<lparr>spam_status := ''MAYBE_SPAM''\<rparr>] \<and>
         id' r \<notin> id' ` set (unscreened_batch (SPAM_WORKER_BATCH_SIZE settings)
           (distress_reports (fst (spam_worker_loop settings cycles (conn', k)))))"
proof -
  define r' where "r' = r\<lparr>spam_status := ''MAYBE_SPAM''\<rparr>"
  have r': "id' r' = id' r" "spam_status r' \<noteq> ''UNSCREENED''"
    by (simp_all add: r'_def)
  have d: "distinct (map id' (distress_reports conn'))"
    using committed_row [OF assms(1,2,3)] by (rule conjunct1)
  have f: "filter (\<lambda>x. id' x = id' r) (distress_reports conn') = [r']"
    unfolding r'_def by (rule committed_failure_row [OF assms])
  have "r' \<in> set (filter (\<lambda>x. id' x = id' r) (distress_reports conn'))"
    unfolding f by simp
  then have m: "r' \<in> set (distress_reports conn')"
    by simp
  from loop_keeps_screened_row [OF d m r'(2), of settings cycles k]
  have d2: "distinct (map id' (distress_reports (fst (spam_worker_loop settings cycles (conn', k)))))"
    and m2: "r' \<in> set (distress_reports (fst (spam_worker_loop settings cycles (conn', k))))"
    by blast+
  have "filter (\<lambda>x. id' x = id' r)
           (distress_reports (fst (spam_worker_loop settings cycles (conn', k)))) = [r'] \<and>
        id' r \<notin> id' ` set (unscreened_batch (SPAM_WORKER_BATCH_SIZE settings)
           (distress_reports (fst (spam_worker_loop settings cycles (conn', k)))))"
    using filter_id_member [OF d2 m2] screened_row_not_selected [OF d2 m2 r'(2)]
    unfolding r'(1) by blast
  then show ?thesis
    unfolding r'_def .
qed

text \<open>Intake only appends: both endpoints keep every row of the table and keep the ids
  distinct, whether the store is available or not.\<close>

lemma create_report_keeps_rows:
  "set (distress_reports conn) \<subseteq> set (distress_reports (snd (create_report up uuid4 now request conn))) \<and>
   (distinct (map id' (distress_reports conn)) \<longrightarrow>
      distinct (map id' (distress_reports (snd (create_report up uuid4 now request conn)))))"
  by (auto simp add: create_report_def get_db_def insert_report_def Let_def split_beta)

lemma create_web_report_keeps_rows:
  "set (distress_reports conn)
     \<subseteq> set (distress_reports (snd (create_web_report float_add up uuid4 now request conn))) \<and>
   (distinct (map id' (distress_reports conn)) \<longrightarrow>
      distinct (map id' (distress_reports
        (snd (create_web_report float_add up uuid4 now request conn)))))"
  by (auto simp add: create_web_report_def get_db_def insert_report_def Let_def split_beta)


section \<open>Properties of template resolution\<close>

lemma fetchone_select_body_None:
  "fetchone (select_body test s rows) = None \<longleftrightarrow>
     filter (\<lambda>t. test (template.abuse_type t) \<and> min_severity t \<le> s \<and> max_severity t \<ge> s) rows = []"
proof -
  define xs where
    "xs = filter (\<lambda>t. test (template.abuse_type t) \<and> min_severity t \<le> s \<and> max_severity t \<ge> s) rows"
  have "fetchone (map body (take 1 (sort_key (\<lambda>t. - min_severity t) xs))) = None \<longleftrightarrow> xs = []"
    by (cases xs; cases "sort_key (\<lambda>t. - min_severity t) xs")
       (simp_all add: insort_is_Cons)
  then show ?thesis
    by (simp add: select_body_def xs_def)
qed

lemma fetchone_select_body_Some:
  assumes "fetchone (select_body test s rows) = Some b"
  shows "\<exists>t\<in>set (filter (\<lambda>t. test (template.abuse_type t) \<and> min_severity t \<le> s \<and> max_severity t \<ge> s) rows).
           b = body t \<and>
           (\<forall>u\<in>set (filter (\<lambda>t. test (template.abuse_type t) \<and> min_severity t \<le> s \<and> max_severity t \<ge> s) rows).
              min_severity u \<le> min_severity t)"
proof -
  define xs where
    "xs = filter (\<lambda>t. test (template.abuse_type t) \<and> min_severity t \<le> s \<and> max_severity t \<ge> s) rows"
  define ys where "ys = sort_key (\<lambda>t. - min_severity t) xs"
  have a: "fetchone (map body (take 1 ys)) = Some b"
    using assms by (simp add: select_body_def xs_def ys_def)
  then obtain t ts where ys: "ys = t # ts" and b: "b = body t"
    by (cases ys) simp_all
  have "sorted (map (\<lambda>t. - min_severity t) ys)"
    unfolding ys_def by (rule sorted_sort_key)
  then have "\<forall>u\<in>set ts. min_severity u \<le> min_severity t"
    unfolding ys by simp
  then have top: "\<forall>u\<in>set ys. min_severity u \<le> min_severity t"
    unfolding ys by simp
  have "set ys = set xs"
    unfolding ys_def by simp
  moreover have "t \<in> set ys"
    unfolding ys by simp
  ultimately show ?thesis
    using top b unfolding xs_def [symmetric] by blast
qed

text \<open>
  Claim C4. For every abuse type and every final score, template resolution returns the
  body of a template whose abuse-type filter equals the given type and whose inclusive
  range contains the score, one with the highest \<open>min_severity\<close> among these. If there
  is none, it returns by the same rule the body of a template without abuse-type filter
  whose range contains the score. If there is none either, it returns the fixed fallback
  message.
\<close>

theorem get_response_template_resolution:
  "(let typed = filter (\<lambda>t. template.abuse_type t = Some (AbuseType_value a) \<and>
                             min_severity t \<le> s \<and> max_severity t \<ge> s) conn;
        baseline = filter (\<lambda>t. template.abuse_type t = None \<and>
                                min_severity t \<le> s \<and> max_severity t \<ge> s) conn
    in (typed \<noteq> [] \<longrightarrow>
          (\<exists>t\<in>set typed. get_response_template conn a s = body t \<and>
                          (\<forall>u\<in>set typed. min_severity u \<le> min_severity t))) \<and>
       (typed = [] \<and> baseline \<noteq> [] \<longrightarrow>
          (\<exists>t\<in>set baseline. get_response_template conn a s = body t \<and>
                             (\<forall>u\<in>set baseline. min_severity u \<le> min_severity t))) \<and>
       (typed = [] \<and> baseline = [] \<longrightarrow> get_response_template conn a s = FALLBACK_RESPONSE))"
proof -
  define q1 where "q1 = fetchone (select_body (\<lambda>c. c = Some (AbuseType_value a)) s conn)"
  define q2 where "q2 = fetchone (select_body (\<lambda>c. c = None) s conn)"
  have res: "get_response_template conn a s =
      (case q1 of Some row \<Rightarrow> row
       | None \<Rightarrow> (case q2 of Some row \<Rightarrow> row | None \<Rightarrow> FALLBACK_RESPONSE))"
    unfolding get_response_template_def Let_def q1_def q2_def by (rule refl)
  show ?thesis
    unfolding Let_def
  proof (intro conjI impI)
    assume "filter (\<lambda>t. template.abuse_type t = Some (AbuseType_value a) \<and>
                        min_severity t \<le> s \<and> max_severity t \<ge> s) conn \<noteq> []"
    then have "q1 \<noteq> None"
      unfolding q1_def fetchone_select_body_None .
    then obtain b where b: "q1 = Some b" by blast
    from fetchone_select_body_Some [OF b [unfolded q1_def]]
    show "\<exists>t\<in>set (filter (\<lambda>t. template.abuse_type t = Some (AbuseType_value a) \<and>
                               min_severity t \<le> s \<and> max_severity t \<ge> s) conn).
            get_response_template conn a s = body t \<and>
            (\<forall>u\<in>set (filter (\<lambda>t. template.abuse_type t = Some (AbuseType_value a) \<and>
                                 min_severity t \<le> s \<and> max_severity t \<ge> s) conn).
               min_severity u \<le> min_severity t)"
      unfolding res b option.case .
  next
    assume "filter (\<lambda>t. template.abuse_type t = Some (AbuseType_value a) \<and>
                        min_severity t \<le> s \<and> max_severity t \<ge> s) conn = [] \<and>
            filter (\<lambda>t. template.abuse_type t = None \<and>
                        min_severity t \<le> s \<and> max_severity t \<ge> s) conn \<noteq> []"
    then have n1: "q1 = None" and "q2 \<noteq> None"
      unfolding q1_def q2_def fetchone_select_body_None by blast+
    then obtain b where b: "q2 = Some b" by blast
    from fetchone_select_body_Some [OF b [unfolded q2_def]]
    show "\<exists>t\<in>set (filter (\<lambda>t. template.abuse_type t = None \<and>
                               min_severity t \<le> s \<and> max_severity t \<ge> s) conn).
            get_response_template conn a s = body t \<and>
            (\<forall>u\<in>set (filter (\<lambda>t. template.abuse_type t = None \<and>
                                 min_severity t \<le> s \<and> max_severity t \<ge> s) conn).
               min_severity u \<le> min_severity t)"
      unfolding res n1 b option.case .
  next
    assume "filter (\<lambda>t. template.abuse_type t = Some (AbuseType_value a) \<and>
                        min_severity t \<le> s \<and> max_severity t \<ge> s) conn = [] \<and>
            filter (\<lambda>t. template.abuse_type t = None \<and>
                        min_severity t \<le> s \<and> max_severity t \<ge> s) conn = []"
    then have "q1 = None" and "q2 = None"
      unfolding q1_def q2_def fetchone_select_body_None by blast+
    then show "get_response_template conn a s = FALLBACK_RESPONSE"
      unfolding res by simp
  qed
qed

theorem get_response_template_resolution_witness:
  "get_response_template sample_templates HARASSMENT 0.5 = body harassment_any \<and>
   get_response_template sample_templates OTHER 0.4 = body baseline_medium \<and>
   get_response_template [harassment_any, self_harm_any] OTHER 0.4 = FALLBACK_RESPONSE"
proof -
  have fields:
    "template.abuse_type baseline_low = None" "min_severity baseline_low = 0"
    "max_severity baseline_low = 0.4"
    "template.abuse_type baseline_medium = None" "min_severity baseline_medium = 0.4"
    "max_severity baseline_medium = 0.7"
    "template.abuse_type baseline_high = None" "min_severity baseline_high = 0.7"
    "max_severity baseline_high = 1"
    "template.abuse_type harassment_any = Some ''HARASSMENT''" "min_severity harassment_any = 0"
    "max_severity harassment_any = 1"
    "template.abuse_type self_harm_any = Some ''SELF_HARM_INDUCTION''"
    "min_severity self_harm_any = 0" "max_severity self_harm_any = 1"
    by (simp_all add: baseline_low_def baseline_medium_def baseline_high_def harassment_any_def
          self_harm_any_def)
  have "get_response_template sample_templates HARASSMENT 0.5 = body harassment_any"
    using get_response_template_resolution [of HARASSMENT "0.5" sample_templates]
    by (simp add: sample_templates_def fields)
  moreover have "get_response_template sample_templates OTHER 0.4 = body baseline_medium"
    using get_response_template_resolution [of OTHER "0.4" sample_templates]
    by (simp add: sample_templates_def fields)
  moreover have "get_response_template [harassment_any, self_harm_any] OTHER 0.4 = FALLBACK_RESPONSE"
    using get_response_template_resolution [of OTHER "0.4" "[harassment_any, self_harm_any]"]
    by (simp add: fields)
  ultimately show ?thesis by blast
qed


section \<open>The store is unavailable\<close>

lemma create_report_store_down:
  "create_report False uuid4 now request conn =
     (Response \<lparr>InternalReportResponse.report_id = ''error'',
                InternalReportResponse.final_severity_score = 0.5,
                InternalReportResponse.classification_labels = [''PROCESSING_ERROR''],
                message_to_agent = FALLBACK_RESPONSE\<rparr>,
      conn)"
  by (simp add: create_report_def get_db_def Let_def split_beta)

lemma create_web_report_store_down:
  "create_web_report float_add False uuid4 now request conn =
     (HTTPException 500 ''Internal error'', conn)"
  by (simp add: create_web_report_def get_db_def Let_def split_beta)

lemma process_batch_store_down:
  "process_batch settings llm False conn = Inl OperationalError"
  by (simp add: process_batch_def get_db_def)

lemma spam_worker_loop_sleeps:
  "snd (spam_worker_loop settings cycles (conn, sleeps)) = sleeps + length cycles"
  by (induction cycles arbitrary: conn sleeps) (simp_all add: Let_def)
text \<open>
  Claim C5 says that, when the store is unavailable during intake, the caller receives a
  server error and no success payload. The agent endpoint \<open>create_report\<close> catches the
  exception and returns a payload with status 200.
\<close>

theorem agent_intake_store_down_counterexample:
  "\<not> is_server_error
       (fst (create_report False ''7d9a-01'' ''2025-03-01T09:00:00.000000+00:00''
               sample_request (sample_db [])))"
  by (simp add: create_report_store_down)

text \<open>
  Claim C5, amended. When the store is unavailable, the web-form endpoint answers with
  the server error 500 and the agent endpoint answers with status 200 and the degraded
  payload: report id \<open>error\<close>, score 0.5, the label \<open>PROCESSING_ERROR\<close> and the
  fallback message. Neither changes the store. In the worker loop, a cycle during which
  the store is unavailable changes nothing, the loop reaches its sleep and goes on with its
  next cycle; the loop has slept once for every cycle it has run.
\<close>

theorem store_unavailable_behaviour:
  "create_web_report float_add False uuid4 now web_request conn =
     (HTTPException 500 ''Internal error'', conn) \<and>
   is_server_error (fst (create_web_report float_add False uuid4 now web_request conn)) \<and>
   create_report False uuid4 now request conn =
     (Response \<lparr>InternalReportResponse.report_id = ''error'',
                InternalReportResponse.final_severity_score = 0.5,
                InternalReportResponse.classification_labels = [''PROCESSING_ERROR''],
                message_to_agent = FALLBACK_RESPONSE\<rparr>,
      conn) \<and>
   spam_worker_loop settings (c\<lparr>cycle_store_up := False\<rparr> # cycles) (conn, sleeps) =
     spam_worker_loop settings cycles (conn, sleeps + 1) \<and>
   snd (spam_worker_loop settings cycles (conn, sleeps)) = sleeps + length cycles"
  by (simp add: create_report_store_down create_web_report_store_down
        process_batch_store_down spam_worker_loop_sleeps)


section \<open>What the worker passes to the external classifier\<close>

text \<open>With an API key configured, the result for a row depends on the external service
  through one prompt: the row's origin and abuse type, \<^verbatim>\<open>agent_severity_score or 0.5\<close>, and
  the first 512 characters of the snippet.\<close>

lemma worker_prompt:
  assumes "OPENROUTER_API_KEY settings \<noteq> []"
  shows "screen settings llm (select_columns r) =
     (case llm (origin r, abuse_type r, or_float (agent_severity_score r) 0.5,
                take 512 (or_str (transcript_snippet r) [])) of
        None \<Rightarrow> None
      | Some result \<Rightarrow>
          Some \<lparr>verdict.spam_status = dict_get result ''spam_status'' (JString ''MAYBE_SPAM''),
                verdict.signal_label = dict_get result ''signal_label'' (JString ''LOW_SIGNAL''),
                verdict.severity_bucket = dict_get result ''severity_bucket'' (JString ''MEDIUM'')\<rparr>)"
  using assms
  by (simp add: screen_def select_columns_def classify_with_llm_def Let_def)

lemma worker_prompt_nonzero_score:
  "v \<noteq> 0 \<Longrightarrow> or_float (Some v) 0.5 = v"
  by (simp add: or_float_def)

lemma worker_prompt_text_length:
  "length (take 512 (or_str snip [])) \<le> 512"
  by simp
text \<open>
  Claim C7 says that the worker passes the report's stored severity score unchanged. A
  stored score of 0.0 is false in Python, so \<^verbatim>\<open>report[3] or 0.5\<close> replaces it: for the
  sample row with \<^verbatim>\<open>agent_severity_score\<close> 0.0, whatever the external service is, the
  prompt carries the score 0.5.
\<close>

theorem worker_prompt_zero_score:
  "screen (sample_settings 20) llm
     (select_columns ((sample_report ''a'' ''2025-03-01T09:00:00.000000+00:00'')
                        \<lparr>agent_severity_score := Some 0\<rparr>)) =
     (case llm (''API_AGENT'', ''HARASSMENT'', 0.5, ''go away'') of
        None \<Rightarrow> None
      | Some result \<Rightarrow>
          Some \<lparr>verdict.spam_status = dict_get result ''spam_status'' (JString ''MAYBE_SPAM''),
                verdict.signal_label = dict_get result ''signal_label'' (JString ''LOW_SIGNAL''),
                verdict.severity_bucket = dict_get result ''severity_bucket'' (JString ''MEDIUM'')\<rparr>)"
proof -
  have key: "OPENROUTER_API_KEY (sample_settings 20) \<noteq> []"
    by (simp add: sample_settings_def)
  show ?thesis
    unfolding worker_prompt [OF key]
    by (simp add: sample_report_def or_float_def or_str_def)
qed


section \<open>What the web-form endpoint stores\<close>

text \<open>For the abuse type \<open>OTHER\<close> and no trigger rules, \<open>classify_report\<close> is the four
  pattern scans of the text, on the given score, and the bucket.\<close>

lemma classify_report_web:
  "classify_report OTHER s d None =
     determine_bucket
       (identity_step (count_pattern_matches d IDENTITY_VIOLATION_PATTERNS)
         (jailbreak_step (count_pattern_matches d JAILBREAK_PATTERNS)
           (self_harm_step (count_pattern_matches d SELF_HARM_PATTERNS)
             (harassment_step (count_pattern_matches d SEVERE_HARASSMENT_PATTERNS) (s, [])))))"
  by (simp add: classify_report_def bump_abuse_type_def check_trigger_rules_def)

lemma initial_severity_of_formula:
  "initial_severity_of float_add request =
     (if is_urgent request
      then min (float_add (case report_type request of
                             AI_BEING_ABUSED \<Rightarrow> 0.6
                           | AI_BEING_MISUSED_TO_HARM_OTHERS \<Rightarrow> 0.7
                           | OTHER_CONCERN \<Rightarrow> 0.5) 0.2) 1
      else (case report_type request of
              AI_BEING_ABUSED \<Rightarrow> 0.6
            | AI_BEING_MISUSED_TO_HARM_OTHERS \<Rightarrow> 0.7
            | OTHER_CONCERN \<Rightarrow> 0.5))"
  by (cases "report_type request") (simp_all add: initial_severity_of_def Let_def)

lemma create_web_report_stored:
  assumes "uuid4 \<notin> id' ` set (distress_reports conn)"
  shows "(let (response, conn') = create_web_report float_add True uuid4 now request conn;
              row = last (distress_reports conn')
          in response = Response \<lparr>WebReportResponse.report_id = uuid4, accepted = True\<rparr> \<and>
             distress_reports conn' = distress_reports conn @ [row] \<and>
             id' row = uuid4 \<and>
             final_severity_score row = Some (initial_severity_of float_add request) \<and>
             classification_labels row =
               Some (fst (snd (classify_report OTHER (initial_severity_of float_add request)
                                 (description request) None))) \<and>
             severity_bucket row =
               Some (SeverityBucket_value
                 (snd (snd (classify_report OTHER (initial_severity_of float_add request)
                              (description request) None)))))"
  using assms
  by (simp add: create_web_report_def get_db_def insert_report_def Let_def split_beta)

lemma classify_sample_web_request:
  "classify_report OTHER 0.5 ''the assistant was told to kill yourself'' None =
     (0.8, [''HARASSMENT_INDICATORS'', ''SELF_HARM_INDICATORS'', ''HIGH_RISK_CATEGORY''], HIGH)"
  by code_simp

lemma classify_sample_quiet_web_request:
  "classify_report OTHER 0.5 ''the assistant keeps apologising to me'' None = (0.5, [], MEDIUM)"
  by code_simp


lemma sample_web_request_fields:
  "initial_severity_of float_add sample_web_request = 0.5"
  "description sample_web_request = ''the assistant was told to kill yourself''"
  "initial_severity_of float_add sample_quiet_web_request = 0.5"
  "description sample_quiet_web_request = ''the assistant keeps apologising to me''"
  by (simp_all add: initial_severity_of_def sample_web_request_def sample_quiet_web_request_def)

lemma sample_web_requests_stored:
  "(let (response, conn') =
          create_web_report float_add True ''w-1'' ''2025-03-01T09:00:00.000000+00:00''
            sample_quiet_web_request (sample_db []);
        row = last (distress_reports conn')
    in final_severity_score row = Some 0.5 \<and> severity_bucket row = Some ''MEDIUM'' \<and>
       classification_labels row = Some []) \<and>
   (let (response, conn') =
          create_web_report float_add True ''w-1'' ''2025-03-01T09:00:00.000000+00:00''
            sample_web_request (sample_db []);
        row = last (distress_reports conn')
    in final_severity_score row = Some 0.5 \<and> severity_bucket row = Some ''HIGH'' \<and>
       classification_labels row =
         Some [''HARASSMENT_INDICATORS'', ''SELF_HARM_INDICATORS'', ''HIGH_RISK_CATEGORY''])"
proof -
  have fresh: "''w-1'' \<notin> id' ` set (distress_reports (sample_db []))"
    by (simp add: sample_db_def)
  show ?thesis
    using
      create_web_report_stored [OF fresh, of float_add "''2025-03-01T09:00:00.000000+00:00''"
        sample_quiet_web_request]
      create_web_report_stored [OF fresh, of float_add "''2025-03-01T09:00:00.000000+00:00''"
        sample_web_request]
    unfolding sample_web_request_fields classify_sample_web_request
      classify_sample_quiet_web_request
    by (simp add: split_beta Let_def)
qed

text \<open>
  Claim C10. For every web-form report that is stored (the store is available and the
  id is new), the stored final severity score is the initial severity, computed from the
  report type and the urgency flag alone: 0.5, or 0.6 for \<open>AI_BEING_ABUSED\<close>, or 0.7 for
  \<open>AI_BEING_MISUSED_TO_HARM_OTHERS\<close>, plus 0.2 in floats if urgent, at most 1.0. The stored
  labels and bucket are those of the four pattern scans of the description, started at
  the initial severity: the score that these scans reach decides the bucket and is not
  stored. So pattern matches raise the stored bucket and not the stored score: of two
  requests that differ in the description only, the one without a match is stored with
  score 0.5, no label and bucket \<open>MEDIUM\<close>, the one with a self-harm pattern with score
  0.5, three labels and bucket \<open>HIGH\<close>.
\<close>

theorem web_report_persisted_score_and_bucket:
  assumes "uuid4 \<notin> id' ` set (distress_reports conn)"
  shows "(let (response, conn') = create_web_report float_add True uuid4 now request conn;
              row = last (distress_reports conn');
              base = (case report_type request of
                        AI_BEING_ABUSED \<Rightarrow> 0.6
                      | AI_BEING_MISUSED_TO_HARM_OTHERS \<Rightarrow> 0.7
                      | OTHER_CONCERN \<Rightarrow> 0.5);
              initial_severity = (if is_urgent request then min (float_add base 0.2) 1 else base);
              d = description request;
              scanned =
                identity_step (count_pattern_matches d IDENTITY_VIOLATION_PATTERNS)
                  (jailbreak_step (count_pattern_matches d JAILBREAK_PATTERNS)
                    (self_harm_step (count_pattern_matches d SELF_HARM_PATTERNS)
                      (harassment_step (count_pattern_matches d SEVERE_HARASSMENT_PATTERNS)
                        (initial_severity, []))))
          in distress_reports conn' = distress_reports conn @ [row] \<and>
             final_severity_score row = Some initial_severity \<and>
             classification_labels row = Some (fst (snd (determine_bucket scanned))) \<and>
             severity_bucket row =
               Some (SeverityBucket_value (snd (snd (determine_bucket scanned))))) \<and>
         (let (response, conn') =
                create_web_report float_add True ''w-1'' ''2025-03-01T09:00:00.000000+00:00''
                  sample_quiet_web_request (sample_db []);
              row = last (distress_reports conn')
          in final_severity_score row = Some 0.5 \<and> severity_bucket row = Some ''MEDIUM'' \<and>
             classification_labels row = Some []) \<and>
         (let (response, conn') =
                create_web_report float_add True ''w-1'' ''2025-03-01T09:00:00.000000+00:00''
                  sample_web_request (sample_db []);
              row = last (distress_reports conn')
          in final_severity_score row = Some 0.5 \<and> severity_bucket row = Some ''HIGH'' \<and>
             classification_labels row =
               Some [''HARASSMENT_INDICATORS'', ''SELF_HARM_INDICATORS'', ''HIGH_RISK_CATEGORY''])"
proof -
  have "(let (response, conn') = create_web_report float_add True uuid4 now request conn;
              row = last (distress_reports conn')
          in distress_reports conn' = distress_reports conn @ [row] \<and>
             final_severity_score row = Some (initial_severity_of float_add request) \<and>
             classification_labels row =
               Some (fst (snd (classify_report OTHER (initial_severity_of float_add request)
                                 (description request) None))) \<and>
             severity_bucket row =
               Some (SeverityBucket_value
                 (snd (snd (classify_report OTHER (initial_severity_of float_add request)
                              (description request) None)))))"
    using create_web_report_stored [OF assms, of float_add now request]
    by (simp add: split_beta Let_def)
  then show ?thesis
    unfolding classify_report_web initial_severity_of_formula Let_def
    using sample_web_requests_stored [of float_add] unfolding Let_def by (rule conjI)
qed

theorem web_report_persisted_score_and_bucket_witness:
  "''w-2'' \<notin> id' ` set (distress_reports (sample_db [sample_row_a])) \<and>
   (let (response, conn') =
          create_web_report sample_float_add True ''w-2'' ''2025-03-01T09:30:00.000000+00:00''
            (sample_web_request\<lparr>report_type := AI_BEING_MISUSED_TO_HARM_OTHERS, is_urgent := True\<rparr>)
            (sample_db [sample_row_a]);
        row = last (distress_reports conn')
    in distress_reports conn' = [sample_row_a, row] \<and>
       final_severity_score row = Some 0.8999999999999999)"
proof -
  have "id' sample_row_a = ''a''"
    by (simp add: sample_row_a_def sample_report_def)
  then have fresh: "''w-2'' \<notin> id' ` set (distress_reports (sample_db [sample_row_a]))"
    by (simp add: sample_db_def)
  have rows: "distress_reports (sample_db [sample_row_a]) = [sample_row_a]"
    by (simp add: sample_db_def)
  show ?thesis
    using fresh
      web_report_persisted_score_and_bucket [OF fresh,
        of sample_float_add "''2025-03-01T09:30:00.000000+00:00''"
           "sample_web_request\<lparr>report_type := AI_BEING_MISUSED_TO_HARM_OTHERS, is_urgent := True\<rparr>",
        THEN conjunct1]
    unfolding rows
    by (simp add: split_beta Let_def sample_float_add_def)
qed

end
